theory Spec2Isabelle
  imports Main "HOL-Library.List_Lexorder" "HOL-Library.Multiset"
begin

section \<open>Python values used by packageCanBeDownloaded.py\<close>

text \<open>
  Strings are \<open>char list\<close>; a \<open>char\<close> is a code point below 256, so the strings
  of the model are the Python strings over ASCII and the Latin-1 supplement, and the
  character classes below are Python's on these code points. Strings with a code
  point from 256 on have no counterpart here.
  Exceptions are values: every function that can raise returns \<open>py_error + 'a\<close>.
\<close>

datatype py_error =
    AttributeError
  | IndexError
  | ValueError
  | KeyError
  | URLError string
  | ParseError

text \<open>The class name of a raised exception, \<open>type(e).__name__\<close>.\<close>

fun error_name :: "py_error \<Rightarrow> string" where
  "error_name AttributeError = ''AttributeError''"
| "error_name IndexError = ''IndexError''"
| "error_name ValueError = ''ValueError''"
| "error_name KeyError = ''KeyError''"
| "error_name (URLError r) = ''URLError''"
| "error_name ParseError = ''ParseError''"

subsection \<open>str.count, str.split, str.isdigit, int(), str()\<close>

text \<open>\<open>s.count(c)\<close> for a one-character needle.\<close>

definition py_count :: "string \<Rightarrow> char \<Rightarrow> nat" where
  "py_count s c = length (filter (\<lambda>x. x = c) s)"

text \<open>\<open>s.split(c)\<close>: one part more than there are separators, empty parts kept.\<close>

fun py_split :: "char \<Rightarrow> string \<Rightarrow> string list" where
  "py_split c [] = [[]]"
| "py_split c (x # xs) =
     (if x = c then [] # py_split c xs
      else (case py_split c xs of
              [] \<Rightarrow> [[x]]
            | p # ps \<Rightarrow> (x # p) # ps))"

text \<open>The characters that \<open>int()\<close> reads as decimal digits.\<close>

definition is_decimal_char :: "char \<Rightarrow> bool" where
  "is_decimal_char c = (c \<in> set ''0123456789'')"

text \<open>
  The characters that \<open>str.isdigit\<close> accepts: the decimal digits and the superscript
  digits two, three and one (code points 178, 179 and 185), which are digits and no
  decimals.
\<close>

definition is_digit_char :: "char \<Rightarrow> bool" where
  "is_digit_char c = (is_decimal_char c \<or> of_char c \<in> {178, 179, 185 :: nat})"

text \<open>\<open>s.isdigit()\<close>: at least one character, and all of them digits.\<close>

definition py_isdigit :: "string \<Rightarrow> bool" where
  "py_isdigit s = (s \<noteq> [] \<and> list_all is_digit_char s)"

text \<open>
  The whitespace that \<open>int()\<close> strips from a \<open>str\<close>: code points 9 to 13 and 32,
  and of the other code points the next-line character 133 and the no-break space
  160. The separators 28 to 31 are not stripped.
\<close>

definition is_space_char :: "char \<Rightarrow> bool" where
  "is_space_char c = (of_char c \<in> {9, 10, 11, 12, 13, 32, 133, 160 :: nat})"

definition digit_value :: "char \<Rightarrow> int" where
  "digit_value c = int (of_char c) - 48"

text \<open>
  The digits of a base 10 literal: single underscores are allowed between digits, not
  in front, not at the end and not doubled. The first argument is the previous
  character (\<open>None\<close> at the start), the second the value read so far.
\<close>

fun int_digits :: "char option \<Rightarrow> int \<Rightarrow> string \<Rightarrow> py_error + int" where
  "int_digits prev acc [] =
     (if prev = None \<or> prev = Some CHR ''_'' then Inl ValueError else Inr acc)"
| "int_digits prev acc (c # cs) =
     (if c = CHR ''_'' then
        (if prev = None \<or> prev = Some CHR ''_'' then Inl ValueError
         else int_digits (Some c) acc cs)
      else if is_decimal_char c then int_digits (Some c) (10 * acc + digit_value c) cs
      else Inl ValueError)"

text \<open>
  The interpreter's limit on the digits of a literal in base 10
  (\<open>sys.int_info.default_max_str_digits\<close>): a literal with more digits raises
  ValueError.
\<close>

definition int_max_str_digits :: nat where
  "int_max_str_digits = 4300"

text \<open>The sign is read, then the digits; the limit counts the digits alone.\<close>

definition int_body :: "string \<Rightarrow> py_error + int" where
  "int_body cs =
     (if length (filter is_decimal_char cs) > int_max_str_digits then Inl ValueError
      else int_digits None 0 cs)"

text \<open>
  \<open>int(s)\<close> for a \<open>str\<close> in base 10: surrounding whitespace is stripped, one sign
  is allowed, then the digits. Anything else raises ValueError.
\<close>

definition py_int :: "string \<Rightarrow> py_error + int" where
  "py_int s =
     (let t = rev (dropWhile is_space_char (rev (dropWhile is_space_char s)))
      in case t of
           [] \<Rightarrow> Inl ValueError
         | c # cs \<Rightarrow>
             if c = CHR ''-'' then
               (case int_body cs of Inl e \<Rightarrow> Inl e | Inr v \<Rightarrow> Inr (- v))
             else if c = CHR ''+'' then int_body cs
             else int_body t)"

definition digit_char :: "nat \<Rightarrow> char" where
  "digit_char n = ''0123456789'' ! n"

fun str_nat :: "nat \<Rightarrow> string" where
  "str_nat n = (if n < 10 then [digit_char n] else str_nat (n div 10) @ [digit_char (n mod 10)])"

declare str_nat.simps [simp del]

text \<open>\<open>str(i)\<close>, which is also what an f-string writes for an \<open>int\<close>.\<close>

definition str_int :: "int \<Rightarrow> string" where
  "str_int i = (if i < 0 then CHR ''-'' # str_nat (nat (- i)) else str_nat (nat i))"

text \<open>What an f-string writes for a value that is a \<open>str\<close> or \<open>None\<close>.\<close>

fun str_opt :: "string option \<Rightarrow> string" where
  "str_opt None = ''None''"
| "str_opt (Some s) = s"

section \<open>The element tree\<close>

text \<open>
  An \<open>xml.etree.ElementTree.Element\<close>: its tag, its text (\<open>None\<close> when the element
  has no character data) and its children in document order.
\<close>

datatype element = Element (tag: string) (text_of: "string option") (children: "element list")

text \<open>
  \<open>e.findall(path)\<close> for a path of plain tag names separated by \<open>/\<close>, given as the
  list of its steps: each step selects, in document order, the children with that tag.
\<close>

fun findall :: "string list \<Rightarrow> element \<Rightarrow> element list" where
  "findall [] e = [e]"
| "findall (t # ts) e = concat (map (findall ts) (filter (\<lambda>c. tag c = t) (children e)))"

text \<open>\<open>e.find(path)\<close>: the first match, or \<open>None\<close>.\<close>

definition find_elem :: "string list \<Rightarrow> element \<Rightarrow> element option" where
  "find_elem path e = (case findall path e of [] \<Rightarrow> None | x # _ \<Rightarrow> Some x)"

text \<open>
  Truth value of \<open>self.root\<close>: \<open>None\<close> is false, and an \<open>Element\<close> is false when it
  has no children (\<open>Element.__bool__\<close> is \<open>len(self) != 0\<close>).
\<close>

fun truthy :: "element option \<Rightarrow> bool" where
  "truthy None = False"
| "truthy (Some e) = (children e \<noteq> [])"

section \<open>The network, the check object and what a call emits\<close>

text \<open>
  What \<open>ET.parse(urlopen(metadataUrl))\<close> does: it returns the parsed tree, or
  \<open>urlopen\<close> raises a URLError (HTTPError is a subclass) whose text is given, or the
  parser raises ParseError.
\<close>

datatype fetch_result = Parsed element | FetchFailed string | ParseFailed

text \<open>
  What \<open>urlopen(url)\<close> does in \<open>is_exist\<close>: it returns a response with a status
  code, or raises HTTPError with a code and a message, or raises a URLError that is
  not an HTTPError.
\<close>

datatype probe_result = Response int | RaisedHTTPError int string | RaisedURLError string

record world =
  metadata :: "string \<Rightarrow> fetch_result"
  probe :: "string \<Rightarrow> probe_result"

text \<open>The instance state of \<open>PackageCanBeDownloaded\<close> that the methods use.\<close>

record check_state =
  root :: "element option"

text \<open>A new object: \<open>root\<close> is the class attribute, \<open>None\<close>.\<close>

definition new_check :: check_state where
  "new_check = \<lparr>root = None\<rparr>"

text \<open>
  The observable actions: a call of \<open>urlopen\<close>, \<open>self.warning\<close>, \<open>self.gauge\<close> with
  metric name, value and tags, and \<open>print\<close>.
\<close>

datatype event =
    UrlOpen string
  | Warning string
  | Gauge string int "string list"
  | Print string

text \<open>\<open>str(err)\<close> of an HTTPError.\<close>

definition http_error_str :: "int \<Rightarrow> string \<Rightarrow> string" where
  "http_error_str code msg = ''HTTP Error '' @ str_int code @ '': '' @ msg"

section \<open>is\_exist\<close>

definition is_exist :: "world \<Rightarrow> string \<Rightarrow> string \<Rightarrow> (py_error + int) \<times> event list" where
  "is_exist w distribution url =
     (case probe w url of
        Response return_code \<Rightarrow>
          (Inr 1,
           UrlOpen url #
             (if return_code \<noteq> 200
              then [Print (''return code should be 200 but is '' @ str_int return_code)]
              else []))
      | RaisedHTTPError code msg \<Rightarrow>
          (Inr 0,
           [UrlOpen url,
            Print (if code = 404
                   then distribution @ '' package not found on '' @ url
                   else ''Something went wrong with url '' @ url @ '' for '' @ distribution
                        @ '' package: '' @ http_error_str code msg)])
      | RaisedURLError reason \<Rightarrow> (Inl (URLError reason), [UrlOpen url]))"

section \<open>PackageCanBeDownloaded\<close>

definition default_metadataUrl :: string where
  "default_metadataUrl =
     ''https://repo.jenkins-ci.org/releases/org/jenkins-ci/main/jenkins-war/maven-metadata.xml''"

text \<open>
  \<open>build_tree\<close>: the root of the parsed document; on URLError a warning and, by
  falling off the end of the method, \<open>None\<close>.
\<close>

definition build_tree :: "world \<Rightarrow> string \<Rightarrow> (py_error + element option) \<times> event list" where
  "build_tree w metadataUrl =
     (case metadata w metadataUrl of
        Parsed r \<Rightarrow> (Inr (Some r), [UrlOpen metadataUrl])
      | FetchFailed err \<Rightarrow>
          (Inr None,
           [UrlOpen metadataUrl,
            Warning (''Error when building tree from metadata url: '' @ err)])
      | ParseFailed \<Rightarrow> (Inl ParseError, [UrlOpen metadataUrl]))"

text \<open>
  The two lines both lookups start with:
  \<^verbatim>\<open>if not self.root: self.root = self.build_tree()\<close>
\<close>

definition load_root :: "world \<Rightarrow> check_state \<Rightarrow> (py_error + unit) \<times> check_state \<times> event list" where
  "load_root w s =
     (if \<not> truthy (root s) then
        (case build_tree w default_metadataUrl of
           (Inl e, t) \<Rightarrow> (Inl e, s, t)
         | (Inr r, t) \<Rightarrow> (Inr (), s\<lparr>root := r\<rparr>, t))
      else (Inr (), s, []))"

definition latest_path :: "string list" where
  "latest_path = [''versioning'', ''latest'']"

definition versions_path :: "string list" where
  "versions_path = [''versioning'', ''versions'', ''version'']"

definition get_latest_weekly_version ::
  "world \<Rightarrow> check_state \<Rightarrow> (py_error + string option) \<times> check_state \<times> event list" where
  "get_latest_weekly_version w s =
     (case load_root w s of
        (Inl e, s', t) \<Rightarrow> (Inl e, s', t)
      | (Inr _, s', t) \<Rightarrow>
          (case root s' of
             None \<Rightarrow> (Inl AttributeError, s', t)
           | Some r \<Rightarrow>
               (case find_elem latest_path r of
                  None \<Rightarrow> (Inl AttributeError, s', t)
                | Some e \<Rightarrow> (Inr (text_of e), s', t))))"

text \<open>
  The list comprehension of \<open>get_latest_stable_version\<close>: \<open>version.text.count\<close>
  raises AttributeError when the text is \<open>None\<close>.
\<close>

fun stable_filter :: "element list \<Rightarrow> py_error + string list" where
  "stable_filter [] = Inr []"
| "stable_filter (version # versions) =
     (case text_of version of
        None \<Rightarrow> Inl AttributeError
      | Some t \<Rightarrow>
          (case stable_filter versions of
             Inl e \<Rightarrow> Inl e
           | Inr rest \<Rightarrow> Inr (if py_count t CHR ''.'' = 2 then t # rest else rest)))"

text \<open>
  \<open>as_version\<close>: unpacking anything but three parts raises ValueError, and so does
  \<open>int\<close> on a part that is no integer literal.
\<close>

definition as_version :: "string \<Rightarrow> py_error + int list" where
  "as_version ele =
     (case py_split CHR ''.'' ele of
        [major, minor, patch] \<Rightarrow>
          if \<not> py_isdigit patch then
            (case py_int major of
               Inl e \<Rightarrow> Inl e
             | Inr a \<Rightarrow> (case py_int minor of Inl e \<Rightarrow> Inl e | Inr b \<Rightarrow> Inr [a, b]))
          else
            (case py_int major of
               Inl e \<Rightarrow> Inl e
             | Inr a \<Rightarrow>
                 (case py_int minor of
                    Inl e \<Rightarrow> Inl e
                  | Inr b \<Rightarrow> (case py_int patch of Inl e \<Rightarrow> Inl e | Inr c \<Rightarrow> Inr [a, b, c])))
      | _ \<Rightarrow> Inl ValueError)"

text \<open>The keys of a sort are computed first, one per element, in order.\<close>

fun with_keys :: "string list \<Rightarrow> py_error + (int list \<times> string) list" where
  "with_keys [] = Inr []"
| "with_keys (x # xs) =
     (case as_version x of
        Inl e \<Rightarrow> Inl e
      | Inr k \<Rightarrow> (case with_keys xs of Inl e \<Rightarrow> Inl e | Inr r \<Rightarrow> Inr ((k, x) # r)))"

text \<open>
  \<open>list.sort(key=..., reverse=True)\<close> on the keyed list: the sort is stable, and
  with \<open>reverse=True\<close> elements of equal key keep their order, as when the list is
  reversed, sorted ascending and reversed again. Keys are lists of integers, compared
  as Python compares lists: by the first position that differs, a proper prefix being
  smaller. A stable sort has one result only, so insertion sort stands for it.
\<close>

definition sort_reverse :: "(int list \<times> string) list \<Rightarrow> (int list \<times> string) list" where
  "sort_reverse kvs = rev (sort_key fst (rev kvs))"

text \<open>\<open>stable_versions.sort(key=as_version, reverse=True)\<close>.\<close>

definition sort_versions :: "string list \<Rightarrow> py_error + string list" where
  "sort_versions xs =
     (case with_keys xs of
        Inl e \<Rightarrow> Inl e
      | Inr kvs \<Rightarrow> Inr (map snd (sort_reverse kvs)))"

text \<open>Everything \<open>get_latest_stable_version\<close> does with the root once it has one.\<close>

definition latest_stable_of :: "element \<Rightarrow> py_error + string" where
  "latest_stable_of r =
     (case stable_filter (findall versions_path r) of
        Inl e \<Rightarrow> Inl e
      | Inr stable_versions \<Rightarrow>
          (case sort_versions stable_versions of
             Inl e \<Rightarrow> Inl e
           | Inr [] \<Rightarrow> Inl IndexError
           | Inr (v # _) \<Rightarrow> Inr v))"

definition get_latest_stable_version ::
  "world \<Rightarrow> check_state \<Rightarrow> (py_error + string) \<times> check_state \<times> event list" where
  "get_latest_stable_version w s =
     (case load_root w s of
        (Inl e, s', t) \<Rightarrow> (Inl e, s', t)
      | (Inr _, s', t) \<Rightarrow>
          (case root s' of
             None \<Rightarrow> (Inl AttributeError, s', t)
           | Some r \<Rightarrow> (latest_stable_of r, s', t)))"

text \<open>The dict literal of \<open>create_endpoints\<close>, in insertion order.\<close>

definition endpoints_dict :: "string \<Rightarrow> string \<Rightarrow> string \<Rightarrow> (string \<times> string) list" where
  "endpoints_dict hostname weekly_version stable_version =
     [(''debian'', ''https://'' @ hostname @ ''/debian/jenkins_'' @ weekly_version @ ''_all.deb''),
      (''redhat'', ''https://'' @ hostname @ ''/redhat/jenkins-'' @ weekly_version @ ''-1.1.noarch.rpm''),
      (''opensuse'', ''https://'' @ hostname @ ''/opensuse/jenkins-'' @ weekly_version @ ''-1.2.noarch.rpm''),
      (''windows'', ''https://'' @ hostname @ ''/windows/'' @ weekly_version @ ''/jenkins.msi''),
      (''war'', ''https://'' @ hostname @ ''/war/'' @ weekly_version @ ''/jenkins.war''),
      (''debian-stable'', ''https://'' @ hostname @ ''/debian-stable/jenkins_'' @ stable_version @ ''_all.deb''),
      (''redhat-stable'', ''https://'' @ hostname @ ''/redhat-stable/jenkins-'' @ stable_version @ ''-1.1.noarch.rpm''),
      (''windows-stable'', ''https://'' @ hostname @ ''/windows-stable/'' @ stable_version @ ''/jenkins.msi''),
      (''opensuse-stable'', ''https://'' @ hostname @ ''/opensuse-stable/jenkins-'' @ stable_version @ ''-1.2.noarch.rpm''),
      (''war-stable'', ''https://'' @ hostname @ ''/war-stable/'' @ stable_version @ ''/jenkins.war'')]"

definition create_endpoints ::
  "world \<Rightarrow> string \<Rightarrow> check_state
     \<Rightarrow> (py_error + (string \<times> string) list) \<times> check_state \<times> event list" where
  "create_endpoints w hostname s =
     (case get_latest_weekly_version w s of
        (Inl e, s1, t1) \<Rightarrow> (Inl e, s1, t1)
      | (Inr weekly_version, s1, t1) \<Rightarrow>
          (case get_latest_stable_version w s1 of
             (Inl e, s2, t2) \<Rightarrow> (Inl e, s2, t1 @ t2)
           | (Inr stable_version, s2, t2) \<Rightarrow>
               (Inr (endpoints_dict hostname (str_opt weekly_version) stable_version),
                s2, t1 @ t2)))"

definition default_hostname :: string where
  "default_hostname = ''get.jenkins.io''"

text \<open>
  \<open>check\<close>: the instance is the mapping of the configured values; a missing
  \<open>package\<close> raises KeyError.
\<close>

definition check ::
  "world \<Rightarrow> (string \<rightharpoonup> string) \<Rightarrow> check_state \<Rightarrow> (py_error + unit) \<times> check_state \<times> event list" where
  "check w instance s =
     (case create_endpoints w default_hostname s of
        (Inl e, s1, t1) \<Rightarrow> (Inl e, s1, t1)
      | (Inr endpoints, s1, t1) \<Rightarrow>
          (case instance ''package'' of
             None \<Rightarrow> (Inl KeyError, s1, t1)
           | Some package \<Rightarrow>
               (let metric = ''jenkins.package.available'';
                    t2 = t1 @ [Warning (''PackageAvailable: '' @ package)];
                    tags = [''package:'' @ package]
                in case map_of endpoints package of
                     Some url \<Rightarrow>
                       (case is_exist w package url of
                          (Inl e, t3) \<Rightarrow> (Inl e, s1, t2 @ t3)
                        | (Inr v, t3) \<Rightarrow> (Inr (), s1, t2 @ t3 @ [Gauge metric v tags]))
                   | None \<Rightarrow>
                       (Inr (), s1,
                        t2 @ [Warning (''PackageCanDownload: Package '' @ package
                                       @ '' is not supported'')]))))"

section \<open>Names used in the statements\<close>

text \<open>The ten package identifiers, in the order of the dict literal.\<close>

definition ten_identifiers :: "string list" where
  "ten_identifiers =
     [''debian'', ''redhat'', ''opensuse'', ''windows'', ''war'',
      ''debian-stable'', ''redhat-stable'', ''windows-stable'', ''opensuse-stable'',
      ''war-stable'']"

text \<open>A network in which every probe has the given outcome.\<close>

definition probe_world :: "probe_result \<Rightarrow> world" where
  "probe_world r = \<lparr>metadata = (\<lambda>u. ParseFailed), probe = (\<lambda>u. r)\<rparr>"

text \<open>
  The stable format in the words of the specification: exactly three components
  separated by dots, of which the first two are numeric; the third is any string.
\<close>

definition stable_format :: "string \<Rightarrow> bool" where
  "stable_format v =
     (case py_split CHR ''.'' v of
        [major, minor, patch] \<Rightarrow> py_isdigit major \<and> py_isdigit minor
      | _ \<Rightarrow> False)"

text \<open>
  A decimal literal: at least one decimal digit, nothing else, and no more digits
  than the interpreter reads.
\<close>

definition decimal_literal :: "string \<Rightarrow> bool" where
  "decimal_literal s = (s \<noteq> [] \<and> list_all is_decimal_char s \<and> length s \<le> int_max_str_digits)"

text \<open>The integer that a string of digits denotes.\<close>

definition decimal :: "string \<Rightarrow> int" where
  "decimal s = foldl (\<lambda>a c. 10 * a + digit_value c) 0 s"

text \<open>A component that \<open>int()\<close> reads, and the integer it reads.\<close>

definition int_literal :: "string \<Rightarrow> bool" where
  "int_literal s = (case py_int s of Inl e \<Rightarrow> False | Inr n \<Rightarrow> True)"

definition int_value :: "string \<Rightarrow> int" where
  "int_value s = (case py_int s of Inl e \<Rightarrow> 0 | Inr n \<Rightarrow> n)"

text \<open>
  A version string with a key: exactly three components separated by dots, major and
  minor integers, and the patch an integer when \<open>isdigit\<close> holds of it.
\<close>

definition version_format :: "string \<Rightarrow> bool" where
  "version_format v =
     (case py_split CHR ''.'' v of
        [major, minor, patch] \<Rightarrow>
          int_literal major \<and> int_literal minor \<and> (py_isdigit patch \<longrightarrow> int_literal patch)
      | _ \<Rightarrow> False)"

text \<open>
  The comparison key in the words of the specification: major, minor and patch as
  integers, the patch left out when it is not numeric.
\<close>

definition version_key :: "string \<Rightarrow> int list" where
  "version_key v =
     (case py_split CHR ''.'' v of
        [major, minor, patch] \<Rightarrow>
          (if py_isdigit patch then [int_value major, int_value minor, int_value patch]
           else [int_value major, int_value minor])
      | _ \<Rightarrow> [])"

text \<open>The key that \<open>as_version\<close> computes, where it computes one.\<close>

definition key_of :: "string \<Rightarrow> int list" where
  "key_of v = (case as_version v of Inl e \<Rightarrow> [] | Inr k \<Rightarrow> k)"

text \<open>
  A metadata document with the given text of \<open>versioning/latest\<close> and one
  \<open>versioning/versions/version\<close> element per string.
\<close>

definition maven_metadata :: "string option \<Rightarrow> string list \<Rightarrow> element" where
  "maven_metadata latest versions =
     Element ''metadata'' None
       [Element ''versioning'' None
          [Element ''latest'' latest [],
           Element ''versions'' None (map (\<lambda>v. Element ''version'' (Some v) []) versions)]]"

text \<open>A network that serves the given document and answers every probe with 200.\<close>

definition doc_world :: "element \<Rightarrow> world" where
  "doc_world d = \<lparr>metadata = (\<lambda>u. Parsed d), probe = (\<lambda>u. Response 200)\<rparr>"

text \<open>
  The document that the lookups of a call work on: the cached root when it is true,
  else what the fetch returns.
\<close>

definition document_of :: "world \<Rightarrow> check_state \<Rightarrow> element option" where
  "document_of w s =
     (if truthy (root s) then root s
      else (case metadata w default_metadataUrl of
              Parsed r \<Rightarrow> Some r
            | FetchFailed err \<Rightarrow> None
            | ParseFailed \<Rightarrow> None))"

text \<open>The document of the specification's example.\<close>

definition example_doc :: element where
  "example_doc = maven_metadata (Some ''2.401'') [''2.401'', ''2.390.1'', ''2.390'', ''2.389.3'']"

text \<open>A document with a three-component entry whose minor component is no integer.\<close>

definition odd_doc :: element where
  "odd_doc = maven_metadata (Some ''2.401'') [''2.401'', ''2.390.1'', ''2.x.1'']"

text \<open>A document that lists no entry with exactly two dots.\<close>

definition weekly_only_doc :: element where
  "weekly_only_doc = maven_metadata (Some ''2.401'') [''2.401'', ''2.390'']"

text \<open>A network in which the metadata fetch raises URLError.\<close>

definition down_world :: world where
  "down_world =
     \<lparr>metadata = (\<lambda>u. FetchFailed ''<urlopen error [Errno 111] Connection refused>''),
      probe = (\<lambda>u. Response 200)\<rparr>"

text \<open>A network that serves the example document and refuses every probe.\<close>

definition refused_world :: world where
  "refused_world =
     \<lparr>metadata = (\<lambda>u. Parsed example_doc),
      probe = (\<lambda>u. RaisedURLError ''<urlopen error [Errno 111] Connection refused>'')\<rparr>"

text \<open>The gauge samples among the actions of a call.\<close>

fun is_gauge :: "event \<Rightarrow> bool" where
  "is_gauge (Gauge metric v tags) = True"
| "is_gauge (UrlOpen url) = False"
| "is_gauge (Warning msg) = False"
| "is_gauge (Print msg) = False"

definition gauges :: "event list \<Rightarrow> event list" where
  "gauges t = filter is_gauge t"

text \<open>How often a call opened the metadata URL.\<close>

definition metadata_fetches :: "event list \<Rightarrow> nat" where
  "metadata_fetches t = length (filter (\<lambda>e. e = UrlOpen default_metadataUrl) t)"

text \<open>The document after a later release.\<close>

definition next_doc :: element where
  "next_doc = maven_metadata (Some ''2.402'') [''2.402'', ''2.401'', ''2.401.1'', ''2.390.1'']"

text \<open>A check object that holds a parsed document.\<close>

definition cached :: "element \<Rightarrow> check_state" where
  "cached d = \<lparr>root = Some d\<rparr>"

section \<open>The endpoint table\<close>

lemma endpoints_keys: "map fst (endpoints_dict h r s) = ten_identifiers"
  by (simp add: endpoints_dict_def ten_identifiers_def)

lemma distinct_ten: "distinct ten_identifiers"
  by (simp add: ten_identifiers_def)

lemma dom_endpoints: "dom (map_of (endpoints_dict h r s)) = set ten_identifiers"
  by (simp only: dom_map_of_conv_image_fst set_map [symmetric] endpoints_keys)

lemma endpoints_dict_entries:
  "map fst (endpoints_dict h r s) = ten_identifiers
   \<and> distinct ten_identifiers
   \<and> length ten_identifiers = 10
   \<and> dom (map_of (endpoints_dict h r s)) = set ten_identifiers
   \<and> map_of (endpoints_dict h r s) ''debian''
       = Some (''https://'' @ h @ ''/debian/jenkins_'' @ r @ ''_all.deb'')
   \<and> map_of (endpoints_dict h r s) ''redhat''
       = Some (''https://'' @ h @ ''/redhat/jenkins-'' @ r @ ''-1.1.noarch.rpm'')
   \<and> map_of (endpoints_dict h r s) ''opensuse''
       = Some (''https://'' @ h @ ''/opensuse/jenkins-'' @ r @ ''-1.2.noarch.rpm'')
   \<and> map_of (endpoints_dict h r s) ''windows''
       = Some (''https://'' @ h @ ''/windows/'' @ r @ ''/jenkins.msi'')
   \<and> map_of (endpoints_dict h r s) ''war''
       = Some (''https://'' @ h @ ''/war/'' @ r @ ''/jenkins.war'')
   \<and> map_of (endpoints_dict h r s) ''debian-stable''
       = Some (''https://'' @ h @ ''/debian-stable/jenkins_'' @ s @ ''_all.deb'')
   \<and> map_of (endpoints_dict h r s) ''redhat-stable''
       = Some (''https://'' @ h @ ''/redhat-stable/jenkins-'' @ s @ ''-1.1.noarch.rpm'')
   \<and> map_of (endpoints_dict h r s) ''windows-stable''
       = Some (''https://'' @ h @ ''/windows-stable/'' @ s @ ''/jenkins.msi'')
   \<and> map_of (endpoints_dict h r s) ''opensuse-stable''
       = Some (''https://'' @ h @ ''/opensuse-stable/jenkins-'' @ s @ ''-1.2.noarch.rpm'')
   \<and> map_of (endpoints_dict h r s) ''war-stable''
       = Some (''https://'' @ h @ ''/war-stable/'' @ s @ ''/jenkins.war'')
   \<and> map_of (endpoints_dict ''get.jenkins.io'' ''2.401'' ''2.390.1'') ''war''
       = Some ''https://get.jenkins.io/war/2.401/jenkins.war''
   \<and> map_of (endpoints_dict ''get.jenkins.io'' ''2.401'' ''2.390.1'') ''war-stable''
       = Some ''https://get.jenkins.io/war-stable/2.390.1/jenkins.war''"
  apply (intro conjI)
                 apply (rule endpoints_keys)
                apply (rule distinct_ten)
               apply (simp add: ten_identifiers_def)
              apply (rule dom_endpoints)
             apply (simp_all add: endpoints_dict_def)
  done

section \<open>The prober\<close>

lemma str_int_examples: "str_int 204 = ''204''" "str_int 500 = ''500''"
  by code_simp+

text \<open>
  C5. \<open>is_exist\<close> classifies the outcome of its one \<open>urlopen\<close>: a response with
  status 200 gives 1 and prints nothing; a response with another status gives 1 and
  prints that the code should be 200 but is the one received; a raised HTTPError with
  status 404 gives 0 and prints that the package was not found on the URL; a raised
  HTTPError with any other status gives 0 and prints a line that ends with the text
  of the error, which names the status.
\<close>

theorem is_exist_classification:
  "(probe w url = Response 200 \<longrightarrow> is_exist w d url = (Inr 1, [UrlOpen url]))
   \<and> (probe w url = Response c \<and> c \<noteq> 200 \<longrightarrow>
        is_exist w d url =
          (Inr 1, [UrlOpen url, Print (''return code should be 200 but is '' @ str_int c)]))
   \<and> (probe w url = RaisedHTTPError 404 msg \<longrightarrow>
        is_exist w d url = (Inr 0, [UrlOpen url, Print (d @ '' package not found on '' @ url)]))
   \<and> (probe w url = RaisedHTTPError c msg \<and> c \<noteq> 404 \<longrightarrow>
        is_exist w d url =
          (Inr 0, [UrlOpen url,
                   Print (''Something went wrong with url '' @ url @ '' for '' @ d
                          @ '' package: '' @ ''HTTP Error '' @ str_int c @ '': '' @ msg)]))"
  by (simp add: is_exist_def http_error_str_def)

theorem is_exist_classification_witness:
  "is_exist (probe_world (Response 200)) ''war'' ''https://h/w''
     = (Inr 1, [UrlOpen ''https://h/w''])
   \<and> is_exist (probe_world (Response 204)) ''war'' ''https://h/w''
       = (Inr 1, [UrlOpen ''https://h/w'', Print ''return code should be 200 but is 204''])
   \<and> is_exist (probe_world (RaisedHTTPError 404 ''Not Found'')) ''war'' ''https://h/w''
       = (Inr 0, [UrlOpen ''https://h/w'', Print ''war package not found on https://h/w''])
   \<and> is_exist (probe_world (RaisedHTTPError 500 ''Internal Server Error'')) ''war''
         ''https://h/w''
       = (Inr 0, [UrlOpen ''https://h/w'',
            Print ''Something went wrong with url https://h/w for war package: HTTP Error 500: Internal Server Error''])"
  using is_exist_classification
          [of "probe_world (Response 200)" "''https://h/w''" "''war''" 0 "''''"]
        is_exist_classification
          [of "probe_world (Response 204)" "''https://h/w''" "''war''" 204 "''''"]
        is_exist_classification
          [of "probe_world (RaisedHTTPError 404 ''Not Found'')" "''https://h/w''" "''war''"
              0 "''Not Found''"]
        is_exist_classification
          [of "probe_world (RaisedHTTPError 500 ''Internal Server Error'')" "''https://h/w''"
              "''war''" 500 "''Internal Server Error''"]
  by (simp add: probe_world_def str_int_examples)

section \<open>Version keys and the descending sort\<close>

lemma decimal_not_underscore: "is_decimal_char c \<Longrightarrow> c \<noteq> CHR ''_''"
  by (auto simp: is_decimal_char_def)

lemma decimal_not_space: "is_decimal_char c \<Longrightarrow> \<not> is_space_char c"
  by (auto simp: is_decimal_char_def is_space_char_def)

lemma decimal_not_sign: "is_decimal_char c \<Longrightarrow> c \<noteq> CHR ''-'' \<and> c \<noteq> CHR ''+''"
  by (auto simp: is_decimal_char_def)

lemma int_digits_all_decimal:
  "list_all is_decimal_char cs \<Longrightarrow> prev \<noteq> Some CHR ''_'' \<Longrightarrow> cs \<noteq> [] \<or> prev \<noteq> None \<Longrightarrow>
   int_digits prev acc cs = Inr (foldl (\<lambda>a c. 10 * a + digit_value c) acc cs)"
proof (induction cs arbitrary: prev acc)
  case Nil
  then show ?case by simp
next
  case (Cons c cs)
  then have c: "is_decimal_char c" and cs: "list_all is_decimal_char cs" by simp_all
  from c have nu: "c \<noteq> CHR ''_''" by (rule decimal_not_underscore)
  have "int_digits (Some c) (10 * acc + digit_value c) cs
          = Inr (foldl (\<lambda>a c. 10 * a + digit_value c) (10 * acc + digit_value c) cs)"
    using Cons.IH [OF cs, of "Some c"] nu by simp
  with c nu show ?case by simp
qed

lemma strip_decimal:
  assumes "decimal_literal s"
  shows "rev (dropWhile is_space_char (rev (dropWhile is_space_char s))) = s"
proof -
  from assms obtain c cs where s: "s = c # cs" and all: "list_all is_decimal_char s"
    by (cases s) (auto simp: decimal_literal_def)
  have "\<not> is_space_char c" using all s by (simp add: decimal_not_space)
  then have 1: "dropWhile is_space_char s = s" using s by simp
  have "s \<noteq> []" using s by simp
  then have "is_decimal_char (last s)" using all by (simp add: list_all_iff)
  then have "\<not> is_space_char (last s)" by (rule decimal_not_space)
  then have "\<not> is_space_char (hd (rev s))" using \<open>s \<noteq> []\<close> by (simp add: hd_rev)
  then have "dropWhile is_space_char (rev s) = rev s"
    using \<open>s \<noteq> []\<close> by (cases "rev s") auto
  with 1 show ?thesis by simp
qed

lemma int_body_decimal: "decimal_literal s \<Longrightarrow> int_body s = Inr (decimal s)"
proof -
  assume a: "decimal_literal s"
  then have all: "list_all is_decimal_char s" and ne: "s \<noteq> []"
    and len: "length s \<le> int_max_str_digits"
    by (simp_all add: decimal_literal_def)
  have "filter is_decimal_char s = s" using all by (simp add: list_all_iff)
  then have "\<not> length (filter is_decimal_char s) > int_max_str_digits" using len by simp
  moreover have "int_digits None 0 s = Inr (decimal s)"
    unfolding decimal_def using int_digits_all_decimal [OF all, of None 0] ne by simp
  ultimately show ?thesis by (simp add: int_body_def)
qed

lemma py_int_decimal: "decimal_literal s \<Longrightarrow> py_int s = Inr (decimal s)"
proof -
  assume a: "decimal_literal s"
  then obtain c cs where s: "s = c # cs" and all: "list_all is_decimal_char s"
    by (cases s) (auto simp: decimal_literal_def)
  then have c: "is_decimal_char c" by simp
  show ?thesis
    unfolding py_int_def strip_decimal [OF a] Let_def
    using decimal_not_sign [OF c] s int_body_decimal [OF a] by simp
qed

lemma int_digits_error: "int_digits prev acc cs = Inl e \<Longrightarrow> e = ValueError"
  by (induction cs arbitrary: prev acc) (auto split: if_splits)

lemma int_body_error: "int_body cs = Inl e \<Longrightarrow> e = ValueError"
  by (auto simp: int_body_def int_digits_error split: if_splits)

lemma py_int_error: "py_int s = Inl e \<Longrightarrow> e = ValueError"
  by (auto simp: py_int_def Let_def int_body_error split: list.splits if_splits sum.splits)

lemma as_version_error: "as_version v = Inl e \<Longrightarrow> e = ValueError"
  by (auto simp: as_version_def py_int_error split: list.splits if_splits sum.splits)

lemma as_version_version_format: "version_format v \<Longrightarrow> as_version v = Inr (version_key v)"
  by (auto simp: version_format_def as_version_def version_key_def int_literal_def
                 int_value_def
           split: list.splits sum.splits)

lemma version_format_iff: "version_format v \<longleftrightarrow> (\<exists>k. as_version v = Inr k)"
proof
  assume "version_format v"
  then show "\<exists>k. as_version v = Inr k" by (auto simp: as_version_version_format)
next
  assume "\<exists>k. as_version v = Inr k"
  then show "version_format v"
    by (auto simp: version_format_def as_version_def int_literal_def
             split: list.splits sum.splits if_splits)
qed

lemma key_of_version_format: "version_format v \<Longrightarrow> key_of v = version_key v"
  by (simp add: key_of_def as_version_version_format)

lemma with_keys_ok:
  "\<forall>x \<in> set xs. \<exists>k. as_version x = Inr k \<Longrightarrow> with_keys xs = Inr (map (\<lambda>x. (key_of x, x)) xs)"
  by (induction xs) (auto simp: key_of_def)

lemma with_keys_Inr:
  "with_keys xs = Inr kvs \<Longrightarrow> (\<forall>x \<in> set xs. \<exists>k. as_version x = Inr k)"
  by (induction xs arbitrary: kvs) (auto split: sum.splits)

lemma with_keys_Inl: "with_keys xs = Inl e \<Longrightarrow> \<exists>x \<in> set xs. as_version x = Inl e"
  by (induction xs) (auto split: sum.splits)

lemma insort_key_tagged:
  "insort_key fst (f x, x) (map (\<lambda>x. (f x, x)) ys) = map (\<lambda>x. (f x, x)) (insort_key f x ys)"
  by (induction ys) auto

lemma sort_key_tagged:
  "sort_key fst (map (\<lambda>x. (f x, x)) xs) = map (\<lambda>x. (f x, x)) (sort_key f xs)"
  by (induction xs) (auto simp: insort_key_tagged)

lemma sort_reverse_tagged:
  "map snd (sort_reverse (map (\<lambda>x. (f x, x)) xs)) = rev (sort_key f (rev xs))"
proof -
  have "rev (map (\<lambda>x. (f x, x)) xs) = map (\<lambda>x. (f x, x)) (rev xs)" by (simp add: rev_map)
  then have "sort_key fst (rev (map (\<lambda>x. (f x, x)) xs)) = map (\<lambda>x. (f x, x)) (sort_key f (rev xs))"
    by (simp add: sort_key_tagged)
  then show ?thesis
    by (simp add: sort_reverse_def rev_map [symmetric] comp_def)
qed

lemma sort_versions_ok:
  "\<forall>x \<in> set xs. \<exists>k. as_version x = Inr k \<Longrightarrow>
   sort_versions xs = Inr (rev (sort_key key_of (rev xs)))"
  by (simp add: sort_versions_def with_keys_ok sort_reverse_tagged)

lemma sort_versions_Inr:
  "sort_versions xs = Inr ys \<Longrightarrow> ys = rev (sort_key key_of (rev xs)) \<and> (\<forall>x \<in> set xs. \<exists>k. as_version x = Inr k)"
  using sort_versions_ok [of xs] with_keys_Inr [of xs]
  by (auto simp: sort_versions_def split: sum.splits)

lemma desc_sorted: "sorted (rev (map f (rev (sort_key f xs))))"
  by (simp add: rev_map [symmetric])

lemma desc_set: "set (rev (sort_key f (rev xs))) = set xs"
  by simp

lemma last_filter_last: "xs \<noteq> [] \<Longrightarrow> P (last xs) \<Longrightarrow> last (filter P xs) = last xs"
  by (cases xs rule: rev_cases) auto

lemma desc_hd_max:
  assumes "xs \<noteq> []"
  shows "hd (rev (sort_key f (rev xs))) \<in> set xs
         \<and> (\<forall>x \<in> set xs. f x \<le> f (hd (rev (sort_key f (rev xs)))))
         \<and> hd (rev (sort_key f (rev xs)))
             = hd (filter (\<lambda>x. f x = f (hd (rev (sort_key f (rev xs))))) xs)"
proof -
  let ?S = "sort_key f (rev xs)"
  have ne: "?S \<noteq> []" using assms by (metis length_0_conv length_rev length_sort)
  have hd: "hd (rev ?S) = last ?S" using ne by (simp add: hd_rev)
  have mem: "last ?S \<in> set xs" using ne last_in_set [OF ne] by simp
  have srt: "sorted (map f ?S)" by simp
  have mx: "\<forall>x \<in> set xs. f x \<le> f (last ?S)"
  proof
    fix x assume "x \<in> set xs"
    then have "x \<in> set ?S" by simp
    then obtain i where i: "i < length ?S" "?S ! i = x" by (metis in_set_conv_nth)
    have "map f ?S ! i \<le> map f ?S ! (length ?S - 1)"
      using srt i ne by (intro sorted_nth_mono) auto
    then show "f x \<le> f (last ?S)" using i ne by (simp add: last_conv_nth)
  qed
  let ?P = "\<lambda>x. f x = f (last ?S)"
  have "filter ?P ?S = filter ?P (rev xs)" by (rule sort_key_stable)
  moreover have "last (filter ?P ?S) = last ?S" using ne by (simp add: last_filter_last)
  ultimately have "last ?S = last (filter ?P (rev xs))" by simp
  also have "\<dots> = last (rev (filter ?P xs))" by (simp add: rev_filter)
  also have "\<dots> = hd (filter ?P xs)"
  proof -
    have "filter ?P xs \<noteq> []" using mem by (auto simp: filter_empty_conv)
    then show ?thesis by (simp add: last_rev)
  qed
  finally have "last ?S = hd (filter ?P xs)" .
  with hd mem mx show ?thesis by simp
qed

lemma sort_versions_error:
  assumes "x \<in> set xs" and "\<not> version_format x"
  shows "sort_versions xs = Inl ValueError"
proof (cases "with_keys xs")
  case (Inl e)
  from with_keys_Inl [OF Inl] as_version_error have "e = ValueError" by blast
  with Inl show ?thesis by (simp add: sort_versions_def)
next
  case (Inr kvs)
  from with_keys_Inr [OF Inr] assms(1) have "\<exists>k. as_version x = Inr k" by blast
  with assms(2) show ?thesis by (simp add: version_format_iff)
qed

lemma sorted_desc_version_key:
  assumes "\<forall>x \<in> set xs. version_format x"
  shows "sorted (rev (map version_key (rev (sort_key key_of (rev xs)))))"
proof -
  have e: "map version_key (sort_key key_of (rev xs)) = map key_of (sort_key key_of (rev xs))"
    using assms by (intro map_cong) (simp_all add: key_of_version_format)
  have "rev (map version_key (rev (sort_key key_of (rev xs))))
        = map version_key (sort_key key_of (rev xs))"
    by (simp add: rev_map)
  also note e
  finally show ?thesis by (simp only: sorted_sort_key)
qed

lemma stable_filter_key:
  assumes "\<forall>x \<in> set xs. version_format x"
  shows "filter (\<lambda>x. version_key x = k) (rev (sort_key key_of (rev xs)))
         = filter (\<lambda>x. version_key x = k) xs"
proof -
  have "filter (\<lambda>x. version_key x = k) (rev (sort_key key_of (rev xs)))
        = filter (\<lambda>x. key_of x = k) (rev (sort_key key_of (rev xs)))"
    using assms by (intro filter_cong) (simp_all add: key_of_version_format)
  also have "\<dots> = rev (filter (\<lambda>x. key_of x = k) (sort_key key_of (rev xs)))"
    by (simp add: rev_filter)
  also have "\<dots> = rev (filter (\<lambda>x. key_of x = k) (rev xs))"
    by (simp only: sort_key_stable)
  also have "\<dots> = filter (\<lambda>x. key_of x = k) xs"
    by (simp add: rev_filter)
  also have "\<dots> = filter (\<lambda>x. version_key x = k) xs"
    using assms by (intro filter_cong) (simp_all add: key_of_version_format)
  finally show ?thesis .
qed

lemma sort_versions_ordered:
  assumes sf: "\<forall>x \<in> set xs. version_format x"
  shows "(\<forall>x \<in> set xs. as_version x = Inr (version_key x))
     \<and> (\<exists>ys. sort_versions xs = Inr ys \<and> mset ys = mset xs
              \<and> sorted (rev (map version_key ys))
              \<and> (\<forall>k. filter (\<lambda>x. version_key x = k) ys = filter (\<lambda>x. version_key x = k) xs))
     \<and> (\<forall>a b. xs = [a, b] \<longrightarrow>
            sort_versions xs = Inr (if version_key a < version_key b then [b, a] else [a, b]))"
proof -
  from sf have ok: "\<forall>x \<in> set xs. \<exists>k. as_version x = Inr k"
    by (auto simp: as_version_version_format)
  have sv: "sort_versions xs = Inr (rev (sort_key key_of (rev xs)))"
    by (rule sort_versions_ok [OF ok])
  have 1: "\<forall>x \<in> set xs. as_version x = Inr (version_key x)"
    using sf by (simp add: as_version_version_format)
  have 2: "\<exists>ys. sort_versions xs = Inr ys \<and> mset ys = mset xs
              \<and> sorted (rev (map version_key ys))
              \<and> (\<forall>k. filter (\<lambda>x. version_key x = k) ys = filter (\<lambda>x. version_key x = k) xs)"
    using sv sorted_desc_version_key [OF sf] stable_filter_key [OF sf] by simp
  have 3: "\<forall>a b. xs = [a, b] \<longrightarrow>
            sort_versions xs = Inr (if version_key a < version_key b then [b, a] else [a, b])"
  proof (intro allI impI)
    fix a b assume xs: "xs = [a, b]"
    then have "key_of a = version_key a" "key_of b = version_key b"
      using sf by (simp_all add: key_of_version_format)
    then show "sort_versions xs = Inr (if version_key a < version_key b then [b, a] else [a, b])"
      using sv xs by (auto simp: not_less)
  qed
  from 1 2 3 show ?thesis by blast
qed

text \<open>
  C2, as amended. For version strings with exactly three dot-separated components
  in which \<open>int()\<close> reads major and minor as integers, and reads the patch as one
  whenever \<open>isdigit\<close> holds of it, the key that \<open>as_version\<close> computes is the integer
  triple (major, minor, patch), with the patch left out when \<open>isdigit\<close> does not
  hold, and the descending sort orders by it: the result is a rearrangement of the
  input whose keys never increase, strings of equal key keep their order, and of two
  strings the one with the greater key comes first. A component of at most 4300
  decimal digits is read as the number it denotes. So 2.320.1 sorts before 2.319.3,
  which sorts before a version whose key is [2, 319]. When one string of the list is
  of another shape the sort raises ValueError.
\<close>

theorem sort_versions_by_version_key:
  "((\<forall>x \<in> set xs. version_format x) \<longrightarrow>
      (\<forall>x \<in> set xs. as_version x = Inr (version_key x))
      \<and> (\<exists>ys. sort_versions xs = Inr ys \<and> mset ys = mset xs
               \<and> sorted (rev (map version_key ys))
               \<and> (\<forall>k. filter (\<lambda>x. version_key x = k) ys
                        = filter (\<lambda>x. version_key x = k) xs))
      \<and> (\<forall>a b. xs = [a, b] \<longrightarrow>
             sort_versions xs
               = Inr (if version_key a < version_key b then [b, a] else [a, b])))
   \<and> ((\<exists>x \<in> set xs. \<not> version_format x) \<longrightarrow> sort_versions xs = Inl ValueError)
   \<and> (decimal_literal s \<longrightarrow> int_literal s \<and> int_value s = decimal s)"
proof (intro conjI impI)
  assume "\<forall>x \<in> set xs. version_format x"
  from sort_versions_ordered [OF this]
  show "\<forall>x \<in> set xs. as_version x = Inr (version_key x)"
    and "\<exists>ys. sort_versions xs = Inr ys \<and> mset ys = mset xs
               \<and> sorted (rev (map version_key ys))
               \<and> (\<forall>k. filter (\<lambda>x. version_key x = k) ys
                        = filter (\<lambda>x. version_key x = k) xs)"
    and "\<forall>a b. xs = [a, b] \<longrightarrow>
             sort_versions xs
               = Inr (if version_key a < version_key b then [b, a] else [a, b])"
    by blast+
next
  assume "\<exists>x \<in> set xs. \<not> version_format x"
  then show "sort_versions xs = Inl ValueError" using sort_versions_error by blast
next
  assume "decimal_literal s"
  then show "int_literal s" by (simp add: int_literal_def py_int_decimal)
next
  assume "decimal_literal s"
  then show "int_value s = decimal s" by (simp add: int_value_def py_int_decimal)
qed

lemma version_key_examples:
  "version_format ''2.320.1''" "version_format ''2.319.3''" "version_format ''2.319.x''"
  "\<not> version_format ''a.b.c''"
  "version_key ''2.320.1'' = [2, 320, 1]"
  "version_key ''2.319.3'' = [2, 319, 3]"
  "version_key ''2.319.x'' = [2, 319]"
  "decimal_literal ''319''"
  "decimal ''319'' = 319"
  by code_simp+

theorem sort_versions_by_version_key_witness:
  "version_format ''2.320.1'' \<and> version_format ''2.319.3'' \<and> version_format ''2.319.x''
   \<and> as_version ''2.320.1'' = Inr [2, 320, 1]
   \<and> as_version ''2.319.3'' = Inr [2, 319, 3]
   \<and> as_version ''2.319.x'' = Inr [2, 319]
   \<and> sort_versions [''2.319.3'', ''2.320.1''] = Inr [''2.320.1'', ''2.319.3'']
   \<and> sort_versions [''2.319.x'', ''2.319.3''] = Inr [''2.319.3'', ''2.319.x'']
   \<and> sort_versions [''2.320.1'', ''2.319.x''] = Inr [''2.320.1'', ''2.319.x'']
   \<and> sort_versions [''2.319.3'', ''a.b.c''] = Inl ValueError
   \<and> decimal_literal ''319'' \<and> int_literal ''319'' \<and> int_value ''319'' = 319"
  using sort_versions_by_version_key [of "[''2.319.3'', ''2.320.1'']" "''319''"]
        sort_versions_by_version_key [of "[''2.319.x'', ''2.319.3'']" "''319''"]
        sort_versions_by_version_key [of "[''2.320.1'', ''2.319.x'']" "''319''"]
        sort_versions_by_version_key [of "[''2.319.3'', ''a.b.c'']" "''319''"]
  by (simp add: version_key_examples)

text \<open>
  The strings 2.x.1 and 2.319.3 have exactly three dot-separated components each,
  and the sort of the pair raises ValueError; so does the key of a version whose
  patch is the superscript digit two.
\<close>

theorem sort_versions_value_error:
  "length (py_split CHR ''.'' ''2.x.1'') = 3
   \<and> length (py_split CHR ''.'' ''2.319.3'') = 3
   \<and> sort_versions [''2.x.1'', ''2.319.3''] = Inl ValueError
   \<and> as_version (''2.1.'' @ [CHR 0xB2]) = Inl ValueError"
  by code_simp

section \<open>The stable-version filter\<close>

lemma length_py_split: "length (py_split c s) = Suc (py_count s c)"
  by (induction s) (auto simp: py_count_def split: list.splits)

lemma stable_format_two_dots: "stable_format t \<Longrightarrow> py_count t CHR ''.'' = 2"
  using length_py_split [of "CHR ''.''" t]
  by (auto simp: stable_format_def split: list.splits)

lemma stable_filter_texts:
  "map text_of vs = map Some ts \<Longrightarrow>
   stable_filter vs = Inr (filter (\<lambda>t. py_count t CHR ''.'' = 2) ts)"
  by (induction vs arbitrary: ts) auto

text \<open>
  C3, as amended. For every list of version strings the stable-version filter keeps a
  string if and only if it contains exactly two dots. Every string of the stable
  format is therefore kept; whether major and minor are numeric is not looked at.
\<close>

theorem stable_filter_two_dots:
  "(map text_of vs = map Some ts \<longrightarrow>
      stable_filter vs = Inr (filter (\<lambda>t. py_count t CHR ''.'' = 2) ts)
      \<and> (\<forall>t. t \<in> set (filter (\<lambda>t. py_count t CHR ''.'' = 2) ts)
              \<longleftrightarrow> t \<in> set ts \<and> py_count t CHR ''.'' = 2))
   \<and> (stable_format t \<longrightarrow> py_count t CHR ''.'' = 2)"
  by (auto simp: stable_filter_texts stable_format_two_dots)

theorem stable_filter_two_dots_witness:
  "stable_filter [Element ''version'' (Some ''2.401'') [], Element ''version'' (Some ''2.390.1'') [],
                  Element ''version'' (Some ''2.x.1'') [], Element ''version'' (Some ''1.2.3.4'') []]
     = Inr [''2.390.1'', ''2.x.1'']
   \<and> stable_format ''2.390.1'' \<and> py_count ''2.390.1'' CHR ''.'' = 2"
proof -
  let ?vs = "[Element ''version'' (Some ''2.401'') [], Element ''version'' (Some ''2.390.1'') [],
              Element ''version'' (Some ''2.x.1'') [], Element ''version'' (Some ''1.2.3.4'') []]"
  let ?ts = "[''2.401'', ''2.390.1'', ''2.x.1'', ''1.2.3.4'']"
  have m: "map text_of ?vs = map Some ?ts" by simp
  have sf: "stable_format ''2.390.1''" by code_simp
  have f: "filter (\<lambda>t. py_count t CHR ''.'' = 2) ?ts = [''2.390.1'', ''2.x.1'']"
    by code_simp
  from stable_filter_two_dots [of ?vs ?ts "''2.390.1''"] m sf
  have "stable_filter ?vs = Inr (filter (\<lambda>t. py_count t CHR ''.'' = 2) ?ts)
        \<and> py_count ''2.390.1'' CHR ''.'' = 2"
    by blast
  then show ?thesis using sf unfolding f by blast
qed

text \<open>
  The string 2.x.1 has two dots and a minor component that is not numeric: the
  filter keeps it, and \<open>as_version\<close> raises ValueError on it.
\<close>

theorem stable_filter_keeps_non_numeric:
  "stable_filter [Element ''version'' (Some ''2.x.1'') []] = Inr [''2.x.1'']
   \<and> \<not> stable_format ''2.x.1''
   \<and> as_version ''2.x.1'' = Inl ValueError"
  by code_simp

section \<open>Resolving the two versions\<close>

lemma load_root_document:
  "document_of w s = Some r \<Longrightarrow>
   \<exists>t. load_root w s = (Inr (), s\<lparr>root := Some r\<rparr>, t)"
  by (auto simp: document_of_def load_root_def build_tree_def split: fetch_result.splits if_splits)

lemma latest_stable_of_max:
  assumes f: "stable_filter (findall versions_path r) = Inr vs"
      and ne: "vs \<noteq> []"
      and sf: "\<forall>v \<in> set vs. version_format v"
  shows "\<exists>v. latest_stable_of r = Inr v \<and> v \<in> set vs
             \<and> (\<forall>u \<in> set vs. version_key u \<le> version_key v)
             \<and> v = hd (filter (\<lambda>u. version_key u = version_key v) vs)"
proof -
  let ?ys = "rev (sort_key key_of (rev vs))"
  from sf have ok: "\<forall>v \<in> set vs. \<exists>k. as_version v = Inr k"
    by (auto simp: as_version_version_format)
  have sv: "sort_versions vs = Inr ?ys" by (rule sort_versions_ok [OF ok])
  have "?ys \<noteq> []" using ne by (metis length_0_conv length_rev length_sort)
  then obtain y ys where ys: "?ys = y # ys" by (cases ?ys) auto
  then have y: "y = hd ?ys" by simp
  have res: "latest_stable_of r = Inr y"
    using f sv ys by (simp add: latest_stable_of_def)
  from desc_hd_max [OF ne, of key_of] y
  have mem: "y \<in> set vs" and mx: "\<forall>u \<in> set vs. key_of u \<le> key_of y"
    and first: "y = hd (filter (\<lambda>u. key_of u = key_of y) vs)"
    by auto
  have ky: "key_of y = version_key y" using mem sf by (simp add: key_of_version_format)
  have mx': "\<forall>u \<in> set vs. version_key u \<le> version_key y"
    using mx sf ky by (simp add: key_of_version_format)
  have "filter (\<lambda>u. key_of u = key_of y) vs = filter (\<lambda>u. version_key u = version_key y) vs"
    using sf ky by (intro filter_cong) (simp_all add: key_of_version_format)
  with first have first': "y = hd (filter (\<lambda>u. version_key u = version_key y) vs)" by simp
  from res mem mx' first' show ?thesis by blast
qed

text \<open>
  C4, as amended. For every document whose filtered stable set is non-empty and
  whose filtered strings all have integer major and minor, and an integer patch when
  \<open>isdigit\<close> holds of it, the resolved stable version is a filtered string of
  greatest key, the first such in document order. For every document that has a
  \<open>versioning/latest\<close> element the resolved rolling version is the text of that
  element. For the versions 2.401, 2.390.1, 2.390, 2.389.3 with latest 2.401 the
  stable result is 2.390.1 and the rolling result is 2.401.
\<close>

theorem latest_versions_resolved:
  "(document_of w s = Some r \<and> stable_filter (findall versions_path r) = Inr vs \<and> vs \<noteq> []
      \<and> (\<forall>v \<in> set vs. version_format v)
      \<longrightarrow> (\<exists>v. fst (get_latest_stable_version w s) = Inr v \<and> v \<in> set vs
                \<and> (\<forall>u \<in> set vs. version_key u \<le> version_key v)
                \<and> v = hd (filter (\<lambda>u. version_key u = version_key v) vs)))
   \<and> (document_of w s = Some r \<and> find_elem latest_path r = Some e
      \<longrightarrow> fst (get_latest_weekly_version w s) = Inr (text_of e))"
proof (intro conjI impI)
  assume a: "document_of w s = Some r \<and> stable_filter (findall versions_path r) = Inr vs
             \<and> vs \<noteq> [] \<and> (\<forall>v \<in> set vs. version_format v)"
  from load_root_document [of w s r] a obtain t
    where lr: "load_root w s = (Inr (), s\<lparr>root := Some r\<rparr>, t)" by blast
  have st: "fst (get_latest_stable_version w s) = latest_stable_of r"
    using lr by (simp add: get_latest_stable_version_def)
  from a latest_stable_of_max [of r vs] st
  show "\<exists>v. fst (get_latest_stable_version w s) = Inr v \<and> v \<in> set vs
                \<and> (\<forall>u \<in> set vs. version_key u \<le> version_key v)
                \<and> v = hd (filter (\<lambda>u. version_key u = version_key v) vs)"
    by simp
next
  assume a: "document_of w s = Some r \<and> find_elem latest_path r = Some e"
  from load_root_document [of w s r] a obtain t
    where lr: "load_root w s = (Inr (), s\<lparr>root := Some r\<rparr>, t)" by blast
  show "fst (get_latest_weekly_version w s) = Inr (text_of e)"
    using lr a by (simp add: get_latest_weekly_version_def)
qed

lemma example_doc_facts:
  "document_of (doc_world example_doc) new_check = Some example_doc"
  "stable_filter (findall versions_path example_doc) = Inr [''2.390.1'', ''2.389.3'']"
  "find_elem latest_path example_doc = Some (Element ''latest'' (Some ''2.401'') [])"
  "version_format ''2.390.1''"
  "version_format ''2.389.3''"
  "version_key ''2.390.1'' = [2, 390, 1]"
  "version_key ''2.389.3'' = [2, 389, 3]"
  by code_simp+

theorem latest_versions_resolved_witness:
  "fst (get_latest_stable_version (doc_world example_doc) new_check) = Inr ''2.390.1''
   \<and> fst (get_latest_weekly_version (doc_world example_doc) new_check) = Inr (Some ''2.401'')"
proof -
  have sf: "\<forall>v \<in> set [''2.390.1'', ''2.389.3'']. version_format v"
    by (simp add: example_doc_facts)
  have ne: "[''2.390.1'', ''2.389.3''] \<noteq> []" by simp
  from latest_versions_resolved
         [of "doc_world example_doc" new_check example_doc "[''2.390.1'', ''2.389.3'']"
             "Element ''latest'' (Some ''2.401'') []"]
       example_doc_facts(1-3) sf ne
  have "(\<exists>v. fst (get_latest_stable_version (doc_world example_doc) new_check) = Inr v
             \<and> v \<in> set [''2.390.1'', ''2.389.3'']
             \<and> (\<forall>u \<in> set [''2.390.1'', ''2.389.3'']. version_key u \<le> version_key v)
             \<and> v = hd (filter (\<lambda>u. version_key u = version_key v) [''2.390.1'', ''2.389.3'']))
        \<and> fst (get_latest_weekly_version (doc_world example_doc) new_check)
            = Inr (text_of (Element ''latest'' (Some ''2.401'') []))"
    by blast
  then show ?thesis
    by (auto simp: example_doc_facts)
qed

text \<open>
  A document that lists 2.390.1 and 2.x.1 has a non-empty filtered set, and the
  stable lookup raises ValueError instead of resolving a version.
\<close>

theorem latest_stable_value_error:
  "stable_filter (findall versions_path odd_doc) = Inr [''2.390.1'', ''2.x.1'']
   \<and> fst (get_latest_stable_version (doc_world odd_doc) new_check) = Inl ValueError"
  by code_simp

text \<open>
  C6, as amended. For every document whose filtered stable set is empty, the stable
  lookup fails with IndexError, raised by \<open>stable_versions[0]\<close>, and returns no
  version string.
\<close>

theorem empty_stable_set_index_error:
  assumes "document_of w s = Some r"
      and "stable_filter (findall versions_path r) = Inr []"
  shows "fst (get_latest_stable_version w s) = Inl IndexError"
proof -
  from load_root_document [OF assms(1)] obtain t
    where lr: "load_root w s = (Inr (), s\<lparr>root := Some r\<rparr>, t)" by blast
  then show ?thesis
    using assms(2)
    by (simp add: get_latest_stable_version_def latest_stable_of_def sort_versions_def
                  sort_reverse_def)
qed

lemma weekly_only_doc_facts:
  "document_of (doc_world weekly_only_doc) new_check = Some weekly_only_doc"
  "stable_filter (findall versions_path weekly_only_doc) = Inr []"
  by code_simp+

theorem empty_stable_set_index_error_witness:
  "fst (get_latest_stable_version (doc_world weekly_only_doc) new_check) = Inl IndexError"
  using empty_stable_set_index_error [OF weekly_only_doc_facts] .

text \<open>
  The error raised on an empty filtered set is Python's IndexError; no exception
  class named EmptyVersionSetError is raised.
\<close>

theorem empty_stable_set_not_named_error:
  "stable_filter (findall versions_path weekly_only_doc) = Inr []
   \<and> fst (get_latest_stable_version (doc_world weekly_only_doc) new_check) = Inl IndexError
   \<and> error_name IndexError \<noteq> ''EmptyVersionSetError''"
  by code_simp

section \<open>A failed metadata fetch\<close>

text \<open>
  C7. When \<open>urlopen\<close> of the metadata URL raises URLError on a new object,
  \<open>build_tree\<close> logs a warning and returns \<open>None\<close>; each lookup then evaluates
  \<open>self.root.find\<close> on \<open>None\<close> and raises AttributeError, and so does \<open>check\<close>.
  No document is stored and no version is extracted, and the error is the
  null-dereference fault, not a FetchError.
\<close>

theorem fetch_failure_attribute_error:
  "get_latest_weekly_version down_world new_check
     = (Inl AttributeError, new_check,
        [UrlOpen default_metadataUrl,
         Warning ''Error when building tree from metadata url: <urlopen error [Errno 111] Connection refused>''])
   \<and> get_latest_stable_version down_world new_check
     = (Inl AttributeError, new_check,
        [UrlOpen default_metadataUrl,
         Warning ''Error when building tree from metadata url: <urlopen error [Errno 111] Connection refused>''])
   \<and> check down_world [''package'' \<mapsto> ''war''] new_check
     = (Inl AttributeError, new_check,
        [UrlOpen default_metadataUrl,
         Warning ''Error when building tree from metadata url: <urlopen error [Errno 111] Connection refused>''])
   \<and> error_name AttributeError \<noteq> ''FetchError''"
  by code_simp

section \<open>State and actions of the lookups\<close>

lemma findall_children: "findall (t # ts) r \<noteq> [] \<Longrightarrow> children r \<noteq> []"
  by auto

lemma find_elem_truthy: "find_elem latest_path r = Some e \<Longrightarrow> truthy (Some r)"
  using findall_children [of "''versioning''" "[''latest'']" r]
  by (auto simp: find_elem_def latest_path_def split: list.splits)

lemma load_root_truthy: "truthy (root s) \<Longrightarrow> load_root w s = (Inr (), s, [])"
  by (simp add: load_root_def)

lemma weekly_state_trace:
  "snd (get_latest_weekly_version w s) = snd (load_root w s)"
  by (auto simp: get_latest_weekly_version_def split: prod.splits sum.splits option.splits)

lemma stable_state_trace:
  "snd (get_latest_stable_version w s) = snd (load_root w s)"
  by (auto simp: get_latest_stable_version_def split: prod.splits sum.splits option.splits)

lemma weekly_Inr:
  assumes "get_latest_weekly_version w s = (Inr wk, s1, t1)"
  shows "\<exists>r e. document_of w s = Some r \<and> load_root w s = (Inr (), s1, t1) \<and> root s1 = Some r
               \<and> s1 = s\<lparr>root := Some r\<rparr>
               \<and> find_elem latest_path r = Some e \<and> wk = text_of e \<and> truthy (root s1)"
proof -
  from assms obtain u where lr: "load_root w s = (Inr u, s1, t1)"
    by (auto simp: get_latest_weekly_version_def split: prod.splits sum.splits option.splits)
  from assms lr obtain r e where r: "root s1 = Some r" and e: "find_elem latest_path r = Some e"
    and wk: "wk = text_of e"
    by (auto simp: get_latest_weekly_version_def split: prod.splits sum.splits option.splits)
  have d: "document_of w s = Some r \<and> s1 = s\<lparr>root := Some r\<rparr>"
    using lr r
    by (auto simp: load_root_def document_of_def build_tree_def
             split: if_splits fetch_result.splits prod.splits sum.splits)
  show ?thesis using lr r e wk d find_elem_truthy [OF e] by auto
qed

lemma create_endpoints_state_trace:
  "snd (create_endpoints w h s) = snd (load_root w s)"
proof (cases "get_latest_weekly_version w s")
  case (fields res s1 t1)
  show ?thesis
  proof (cases res)
    case (Inl e)
    with fields weekly_state_trace [of w s] show ?thesis
      by (simp add: create_endpoints_def)
  next
    case (Inr wk)
    with fields have g: "get_latest_weekly_version w s = (Inr wk, s1, t1)" by simp
    from weekly_Inr [OF g] have lr: "load_root w s = (Inr (), s1, t1)" and tr: "truthy (root s1)"
      by auto
    have "snd (get_latest_stable_version w s1) = (s1, [])"
      using stable_state_trace [of w s1] load_root_truthy [OF tr, of w] by simp
    then show ?thesis using g lr
      by (auto simp: create_endpoints_def split: prod.splits sum.splits)
  qed
qed

lemma create_endpoints_Inr:
  assumes "create_endpoints w h s = (Inr eps, s1, t1)"
  shows "\<exists>r e v. document_of w s = Some r \<and> root s1 = Some r \<and> truthy (root s1)
                 \<and> s1 = s\<lparr>root := Some r\<rparr>
                 \<and> find_elem latest_path r = Some e \<and> latest_stable_of r = Inr v
                 \<and> eps = endpoints_dict h (str_opt (text_of e)) v"
proof -
  from assms obtain wk s' t' where g: "get_latest_weekly_version w s = (Inr wk, s', t')"
    by (auto simp: create_endpoints_def split: prod.splits sum.splits)
  from weekly_Inr [OF g] obtain r e where
    d: "document_of w s = Some r" and r: "root s' = Some r" and tr: "truthy (root s')"
    and s': "s' = s\<lparr>root := Some r\<rparr>"
    and e: "find_elem latest_path r = Some e" and wk: "wk = text_of e"
    by blast
  have st: "get_latest_stable_version w s' = (latest_stable_of r, s', [])"
    using load_root_truthy [OF tr, of w] r by (simp add: get_latest_stable_version_def)
  from assms g st obtain v where v: "latest_stable_of r = Inr v"
    and eps: "eps = endpoints_dict h (str_opt wk) v" and s1: "s1 = s'"
    by (auto simp: create_endpoints_def split: sum.splits)
  show ?thesis using d r tr s' e v eps s1 wk by auto
qed

lemma load_root_trace_cases:
  "snd (snd (load_root w s)) = []
   \<or> snd (snd (load_root w s)) = [UrlOpen default_metadataUrl]
   \<or> (\<exists>m. snd (snd (load_root w s)) = [UrlOpen default_metadataUrl, Warning m])"
  by (auto simp: load_root_def build_tree_def split: fetch_result.splits)

lemma load_root_gauges: "gauges (snd (snd (load_root w s))) = []"
  using load_root_trace_cases [of w s] by (auto simp: gauges_def)

lemma load_root_fetches: "metadata_fetches (snd (snd (load_root w s))) \<le> 1"
  using load_root_trace_cases [of w s] by (auto simp: metadata_fetches_def)

lemma create_endpoints_gauges: "gauges (snd (snd (create_endpoints w h s))) = []"
  by (simp add: create_endpoints_state_trace load_root_gauges)

lemma is_exist_gauges: "gauges (snd (is_exist w p url)) = []"
  by (auto simp: is_exist_def gauges_def split: probe_result.splits)

lemma is_exist_value:
  "is_exist w p url = (Inr v, t) \<Longrightarrow> v = 0 \<or> v = 1"
  by (auto simp: is_exist_def split: probe_result.splits)

lemma is_exist_returns:
  "\<forall>reason. probe w url \<noteq> RaisedURLError reason \<Longrightarrow> \<exists>v t. is_exist w p url = (Inr v, t)"
  by (auto simp: is_exist_def split: probe_result.splits)

lemma map_of_endpoints_None:
  "map_of (endpoints_dict h r s) p = None \<longleftrightarrow> p \<notin> set ten_identifiers"
  unfolding dom_endpoints [of h r s, symmetric] by (simp add: domIff)

section \<open>The endpoint builder\<close>

lemma concat_findall_Nil: "concat (map (findall [] \<circ> f) vs) = map f vs"
  by (induction vs) simp_all

lemma findall_maven_metadata:
  "findall versions_path (maven_metadata l vs) = map (\<lambda>v. Element ''version'' (Some v) []) vs"
  by (simp add: versions_path_def maven_metadata_def concat_findall_Nil)

lemma find_maven_metadata:
  "find_elem latest_path (maven_metadata l vs) = Some (Element ''latest'' l [])"
  by (simp add: find_elem_def latest_path_def maven_metadata_def)

lemma version_format_two_dots: "version_format v \<Longrightarrow> py_count v CHR ''.'' = 2"
  using length_py_split [of "CHR ''.''" v]
  by (auto simp: version_format_def split: list.splits)

lemma latest_stable_single:
  assumes "version_format v"
  shows "latest_stable_of (maven_metadata l [v]) = Inr v"
proof -
  have "stable_filter (findall versions_path (maven_metadata l [v])) = Inr [v]"
    using stable_filter_texts [of "[Element ''version'' (Some v) []]" "[v]"]
          version_format_two_dots [OF assms]
    by (simp add: findall_maven_metadata)
  moreover have "sort_versions [v] = Inr [v]"
    using sort_versions_ok [of "[v]"] assms by (simp add: version_format_iff)
  ultimately show ?thesis by (simp add: latest_stable_of_def)
qed

lemma create_endpoints_of_lookups:
  assumes "get_latest_weekly_version w s = (Inr weekly_version, s1, t1)"
      and "get_latest_stable_version w s1 = (Inr stable_version, s2, t2)"
  shows "create_endpoints w h s = (Inr (endpoints_dict h (str_opt weekly_version) stable_version), s2, t1 @ t2)"
  using assms by (simp add: create_endpoints_def)

lemma create_endpoints_maven_metadata:
  assumes "version_format v"
  shows "create_endpoints (doc_world (maven_metadata (Some r) [v])) h new_check
           = (Inr (endpoints_dict h r v), cached (maven_metadata (Some r) [v]),
              [UrlOpen default_metadataUrl])"
proof -
  let ?d = "maven_metadata (Some r) [v]"
  have lr: "load_root (doc_world ?d) new_check = (Inr (), cached ?d, [UrlOpen default_metadataUrl])"
    by (simp add: load_root_def new_check_def build_tree_def doc_world_def cached_def)
  have wk: "get_latest_weekly_version (doc_world ?d) new_check
              = (Inr (Some r), cached ?d, [UrlOpen default_metadataUrl])"
    using lr by (simp add: get_latest_weekly_version_def cached_def find_maven_metadata)
  have tr: "truthy (root (cached ?d))" by (simp add: cached_def maven_metadata_def)
  have st: "get_latest_stable_version (doc_world ?d) (cached ?d) = (Inr v, cached ?d, [])"
    using load_root_truthy [OF tr, of "doc_world ?d"] latest_stable_single [OF assms, of "Some r"]
    by (simp add: get_latest_stable_version_def cached_def)
  from create_endpoints_of_lookups [OF wk st, of h] show ?thesis by simp
qed

text \<open>
  C1. \<open>create_endpoints\<close> returns the table of the dict literal for the host name
  and the two versions its lookups return; for every host name \<open>h\<close>, rolling version
  \<open>r\<close> and stable version \<open>v\<close> it does so on the document that has \<open>r\<close> as latest
  and lists \<open>v\<close>. Every table it returns is such a table. The table has exactly the
  ten identifiers as keys, each once, and each URL is the template of the source
  filled with the host and the version of its channel. With rolling 2.401, stable
  2.390.1 and host get.jenkins.io the entry of \<open>war\<close> is
  https://get.jenkins.io/war/2.401/jenkins.war and the entry of \<open>war-stable\<close> is
  https://get.jenkins.io/war-stable/2.390.1/jenkins.war.
\<close>

theorem create_endpoints_table:
  "(get_latest_weekly_version w s = (Inr weekly_version, s1, t1)
      \<and> get_latest_stable_version w s1 = (Inr stable_version, s2, t2)
      \<longrightarrow> create_endpoints w h s
            = (Inr (endpoints_dict h (str_opt weekly_version) stable_version), s2, t1 @ t2))
   \<and> (version_format v
      \<longrightarrow> create_endpoints (doc_world (maven_metadata (Some r) [v])) h new_check
            = (Inr (endpoints_dict h r v), cached (maven_metadata (Some r) [v]),
               [UrlOpen default_metadataUrl]))
   \<and> (\<forall>eps. fst (create_endpoints w h s) = Inr eps
        \<longrightarrow> (\<exists>r' v'. eps = endpoints_dict h r' v') \<and> map fst eps = ten_identifiers
            \<and> dom (map_of eps) = set ten_identifiers)
   \<and> map fst (endpoints_dict h r v) = ten_identifiers
   \<and> distinct ten_identifiers
   \<and> length ten_identifiers = 10
   \<and> dom (map_of (endpoints_dict h r v)) = set ten_identifiers
   \<and> map_of (endpoints_dict h r v) ''debian''
       = Some (''https://'' @ h @ ''/debian/jenkins_'' @ r @ ''_all.deb'')
   \<and> map_of (endpoints_dict h r v) ''redhat''
       = Some (''https://'' @ h @ ''/redhat/jenkins-'' @ r @ ''-1.1.noarch.rpm'')
   \<and> map_of (endpoints_dict h r v) ''opensuse''
       = Some (''https://'' @ h @ ''/opensuse/jenkins-'' @ r @ ''-1.2.noarch.rpm'')
   \<and> map_of (endpoints_dict h r v) ''windows''
       = Some (''https://'' @ h @ ''/windows/'' @ r @ ''/jenkins.msi'')
   \<and> map_of (endpoints_dict h r v) ''war''
       = Some (''https://'' @ h @ ''/war/'' @ r @ ''/jenkins.war'')
   \<and> map_of (endpoints_dict h r v) ''debian-stable''
       = Some (''https://'' @ h @ ''/debian-stable/jenkins_'' @ v @ ''_all.deb'')
   \<and> map_of (endpoints_dict h r v) ''redhat-stable''
       = Some (''https://'' @ h @ ''/redhat-stable/jenkins-'' @ v @ ''-1.1.noarch.rpm'')
   \<and> map_of (endpoints_dict h r v) ''windows-stable''
       = Some (''https://'' @ h @ ''/windows-stable/'' @ v @ ''/jenkins.msi'')
   \<and> map_of (endpoints_dict h r v) ''opensuse-stable''
       = Some (''https://'' @ h @ ''/opensuse-stable/jenkins-'' @ v @ ''-1.2.noarch.rpm'')
   \<and> map_of (endpoints_dict h r v) ''war-stable''
       = Some (''https://'' @ h @ ''/war-stable/'' @ v @ ''/jenkins.war'')"
proof -
  have 1: "get_latest_weekly_version w s = (Inr weekly_version, s1, t1)
      \<and> get_latest_stable_version w s1 = (Inr stable_version, s2, t2)
      \<longrightarrow> create_endpoints w h s
            = (Inr (endpoints_dict h (str_opt weekly_version) stable_version), s2, t1 @ t2)"
    using create_endpoints_of_lookups by blast
  have 2: "version_format v
      \<longrightarrow> create_endpoints (doc_world (maven_metadata (Some r) [v])) h new_check
            = (Inr (endpoints_dict h r v), cached (maven_metadata (Some r) [v]),
               [UrlOpen default_metadataUrl])"
    using create_endpoints_maven_metadata by blast
  have 3: "\<forall>eps. fst (create_endpoints w h s) = Inr eps
        \<longrightarrow> (\<exists>r' v'. eps = endpoints_dict h r' v') \<and> map fst eps = ten_identifiers
            \<and> dom (map_of eps) = set ten_identifiers"
  proof (intro allI impI)
    fix eps assume "fst (create_endpoints w h s) = Inr eps"
    then obtain s' t' where "create_endpoints w h s = (Inr eps, s', t')"
      by (cases "create_endpoints w h s") auto
    from create_endpoints_Inr [OF this] obtain r' v' where "eps = endpoints_dict h r' v'"
      by blast
    then show "(\<exists>r' v'. eps = endpoints_dict h r' v') \<and> map fst eps = ten_identifiers
            \<and> dom (map_of eps) = set ten_identifiers"
      using endpoints_keys dom_endpoints by blast
  qed
  from 1 2 3 endpoints_dict_entries [of h r v] show ?thesis by blast
qed

lemma example_lookups:
  "get_latest_weekly_version (doc_world example_doc) new_check
     = (Inr (Some ''2.401''), cached example_doc, [UrlOpen default_metadataUrl])"
  "get_latest_stable_version (doc_world example_doc) (cached example_doc)
     = (Inr ''2.390.1'', cached example_doc, [])"
  "version_format ''2.390.1''"
  by code_simp+

theorem create_endpoints_table_witness:
  "(\<exists>eps. create_endpoints (doc_world example_doc) ''get.jenkins.io'' new_check
            = (Inr eps, cached example_doc, [UrlOpen default_metadataUrl])
          \<and> map fst eps = ten_identifiers
          \<and> map_of eps ''war'' = Some ''https://get.jenkins.io/war/2.401/jenkins.war''
          \<and> map_of eps ''war-stable''
              = Some ''https://get.jenkins.io/war-stable/2.390.1/jenkins.war'')
   \<and> (\<exists>eps. create_endpoints (doc_world (maven_metadata (Some ''2.401'') [''2.390.1'']))
              ''get.jenkins.io'' new_check
            = (Inr eps, cached (maven_metadata (Some ''2.401'') [''2.390.1'']),
               [UrlOpen default_metadataUrl])
          \<and> map_of eps ''war'' = Some ''https://get.jenkins.io/war/2.401/jenkins.war''
          \<and> map_of eps ''war-stable''
              = Some ''https://get.jenkins.io/war-stable/2.390.1/jenkins.war'')"
  using create_endpoints_table
          [of "doc_world example_doc" new_check "Some ''2.401''" "cached example_doc"
              "[UrlOpen default_metadataUrl]" "''2.390.1''" "cached example_doc" "[]"
              "''get.jenkins.io''" "''2.390.1''" "''2.401''"]
        example_lookups
  by simp

section \<open>The check\<close>

text \<open>
  C8, as amended. For every requested package identifier, once the endpoint table is
  built: when the identifier is one of the ten and the probe's \<open>urlopen\<close> returns a
  response or raises HTTPError, the check emits exactly one gauge sample of
  jenkins.package.available tagged package:<identifier>, whose value is the prober's
  result, 0 or 1; when the identifier is not one of the ten, it emits no gauge and
  logs the warning that the package is not supported.
\<close>

theorem check_gauge:
  assumes ce: "create_endpoints w default_hostname s = (Inr eps, s1, t1)"
      and pk: "inst ''package'' = Some package"
  shows "(package \<in> set ten_identifiers
          \<and> (\<forall>url reason. map_of eps package = Some url \<longrightarrow> probe w url \<noteq> RaisedURLError reason)
          \<longrightarrow> (\<exists>url v t3. map_of eps package = Some url \<and> is_exist w package url = (Inr v, t3)
                 \<and> (v = 0 \<or> v = 1)
                 \<and> check w inst s
                     = (Inr (), s1,
                        t1 @ [Warning (''PackageAvailable: '' @ package)] @ t3
                           @ [Gauge ''jenkins.package.available'' v [''package:'' @ package]])
                 \<and> gauges (snd (snd (check w inst s)))
                     = [Gauge ''jenkins.package.available'' v [''package:'' @ package]]))
         \<and> (package \<notin> set ten_identifiers
          \<longrightarrow> check w inst s
                = (Inr (), s1,
                   t1 @ [Warning (''PackageAvailable: '' @ package),
                         Warning (''PackageCanDownload: Package '' @ package
                                  @ '' is not supported'')])
              \<and> gauges (snd (snd (check w inst s))) = [])"
proof -
  from create_endpoints_Inr [OF ce] obtain wk v where
    eps: "eps = endpoints_dict default_hostname wk v" by blast
  have g1: "gauges t1 = []"
    using create_endpoints_gauges [of w default_hostname s] ce by simp
  have sup: "package \<in> set ten_identifiers
          \<and> (\<forall>url reason. map_of eps package = Some url \<longrightarrow> probe w url \<noteq> RaisedURLError reason)
          \<longrightarrow> (\<exists>url v t3. map_of eps package = Some url \<and> is_exist w package url = (Inr v, t3)
                 \<and> (v = 0 \<or> v = 1)
                 \<and> check w inst s
                     = (Inr (), s1,
                        t1 @ [Warning (''PackageAvailable: '' @ package)] @ t3
                           @ [Gauge ''jenkins.package.available'' v [''package:'' @ package]])
                 \<and> gauges (snd (snd (check w inst s)))
                     = [Gauge ''jenkins.package.available'' v [''package:'' @ package]])"
  proof
    assume a: "package \<in> set ten_identifiers
          \<and> (\<forall>url reason. map_of eps package = Some url \<longrightarrow> probe w url \<noteq> RaisedURLError reason)"
    then obtain url where url: "map_of eps package = Some url"
      using map_of_endpoints_None [of default_hostname wk v package] eps by auto
    with a have "\<forall>reason. probe w url \<noteq> RaisedURLError reason" by blast
    from is_exist_returns [OF this, of package] obtain x t3
      where ie: "is_exist w package url = (Inr x, t3)" by blast
    have x: "x = 0 \<or> x = 1" by (rule is_exist_value [OF ie])
    have g3: "gauges t3 = []" using is_exist_gauges [of w package url] ie by simp
    have c: "check w inst s
               = (Inr (), s1,
                  t1 @ [Warning (''PackageAvailable: '' @ package)] @ t3
                     @ [Gauge ''jenkins.package.available'' x [''package:'' @ package]])"
      using ce pk url ie by (simp add: check_def)
    have "gauges (snd (snd (check w inst s)))
            = [Gauge ''jenkins.package.available'' x [''package:'' @ package]]"
      using g1 g3 unfolding c by (simp add: gauges_def)
    with url ie x c show "\<exists>url v t3. map_of eps package = Some url \<and> is_exist w package url = (Inr v, t3)
                 \<and> (v = 0 \<or> v = 1)
                 \<and> check w inst s
                     = (Inr (), s1,
                        t1 @ [Warning (''PackageAvailable: '' @ package)] @ t3
                           @ [Gauge ''jenkins.package.available'' v [''package:'' @ package]])
                 \<and> gauges (snd (snd (check w inst s)))
                     = [Gauge ''jenkins.package.available'' v [''package:'' @ package]]"
      by blast
  qed
  have unsup: "package \<notin> set ten_identifiers
          \<longrightarrow> check w inst s
                = (Inr (), s1,
                   t1 @ [Warning (''PackageAvailable: '' @ package),
                         Warning (''PackageCanDownload: Package '' @ package
                                  @ '' is not supported'')])
              \<and> gauges (snd (snd (check w inst s))) = []"
  proof
    assume "package \<notin> set ten_identifiers"
    then have n: "map_of eps package = None"
      using map_of_endpoints_None [of default_hostname wk v package] eps by simp
    have c: "check w inst s
                = (Inr (), s1,
                   t1 @ [Warning (''PackageAvailable: '' @ package),
                         Warning (''PackageCanDownload: Package '' @ package
                                  @ '' is not supported'')])"
      using ce pk n by (simp add: check_def)
    have "gauges (snd (snd (check w inst s))) = []"
      using g1 unfolding c by (simp add: gauges_def)
    with c show "check w inst s
                = (Inr (), s1,
                   t1 @ [Warning (''PackageAvailable: '' @ package),
                         Warning (''PackageCanDownload: Package '' @ package
                                  @ '' is not supported'')])
              \<and> gauges (snd (snd (check w inst s))) = []"
      by simp
  qed
  from sup unsup show ?thesis by (rule conjI)
qed

lemma example_create_endpoints:
  "create_endpoints (doc_world example_doc) default_hostname new_check
     = (Inr (endpoints_dict default_hostname ''2.401'' ''2.390.1''), cached example_doc,
        [UrlOpen default_metadataUrl])"
  by code_simp

lemma is_exist_doc_world: "is_exist (doc_world d) p url = (Inr 1, [UrlOpen url])"
  by (simp add: is_exist_def doc_world_def)

theorem check_gauge_witness:
  "gauges (snd (snd (check (doc_world example_doc) [''package'' \<mapsto> ''war''] new_check)))
     = [Gauge ''jenkins.package.available'' 1 [''package:war'']]
   \<and> check (doc_world example_doc) [''package'' \<mapsto> ''rpm''] new_check
     = (Inr (), cached example_doc,
        [UrlOpen default_metadataUrl, Warning ''PackageAvailable: rpm'',
         Warning ''PackageCanDownload: Package rpm is not supported''])"
proof -
  have war: "''war'' \<in> set ten_identifiers" and rpm: "''rpm'' \<notin> set ten_identifiers"
    by (simp_all add: ten_identifiers_def)
  have pr: "\<forall>url reason.
              map_of (endpoints_dict default_hostname ''2.401'' ''2.390.1'') ''war'' = Some url
              \<longrightarrow> probe (doc_world example_doc) url \<noteq> RaisedURLError reason"
    by (simp add: doc_world_def)
  have p1: "[''package'' \<mapsto> ''war''] ''package'' = Some ''war''"
   and p2: "[''package'' \<mapsto> ''rpm''] ''package'' = Some ''rpm''" by simp_all
  from check_gauge [where inst = "[''package'' \<mapsto> ''war'']" and package = "''war''",
                    OF example_create_endpoints p1] war pr
  obtain url v t3 where
    ie: "is_exist (doc_world example_doc) ''war'' url = (Inr v, t3)" and
    g: "gauges (snd (snd (check (doc_world example_doc) [''package'' \<mapsto> ''war''] new_check)))
          = [Gauge ''jenkins.package.available'' v [''package:'' @ ''war'']]"
    by blast
  from ie have "v = 1" by (simp add: is_exist_doc_world)
  with g have a: "gauges (snd (snd (check (doc_world example_doc) [''package'' \<mapsto> ''war''] new_check)))
     = [Gauge ''jenkins.package.available'' 1 [''package:war'']]" by simp
  from check_gauge [where inst = "[''package'' \<mapsto> ''rpm'']" and package = "''rpm''",
                    OF example_create_endpoints p2] rpm
  have b: "check (doc_world example_doc) [''package'' \<mapsto> ''rpm''] new_check
     = (Inr (), cached example_doc,
        [UrlOpen default_metadataUrl, Warning ''PackageAvailable: rpm'',
         Warning ''PackageCanDownload: Package rpm is not supported''])"
    by simp
  from a b show ?thesis by (rule conjI)
qed

text \<open>
  With a probe that raises a URLError which is no HTTPError, the check of the
  supported identifier war raises and emits no gauge; nor does it when the metadata
  fetch fails.
\<close>

theorem check_without_gauge:
  "''war'' \<in> set ten_identifiers
   \<and> check refused_world [''package'' \<mapsto> ''war''] new_check
     = (Inl (URLError ''<urlopen error [Errno 111] Connection refused>''), cached example_doc,
        [UrlOpen default_metadataUrl, Warning ''PackageAvailable: war'',
         UrlOpen ''https://get.jenkins.io/war/2.401/jenkins.war''])
   \<and> gauges (snd (snd (check refused_world [''package'' \<mapsto> ''war''] new_check))) = []
   \<and> gauges (snd (snd (check down_world [''package'' \<mapsto> ''war''] new_check))) = []"
  by code_simp

section \<open>Effects of create\_endpoints\<close>

lemma create_endpoints_result:
  assumes "document_of w s = Some r"
  shows "fst (create_endpoints w h s)
           = (case find_elem latest_path r of
                None \<Rightarrow> Inl AttributeError
              | Some e \<Rightarrow>
                  (case latest_stable_of r of
                     Inl err \<Rightarrow> Inl err
                   | Inr v \<Rightarrow> Inr (endpoints_dict h (str_opt (text_of e)) v)))"
proof -
  from load_root_document [OF assms] obtain t
    where lr: "load_root w s = (Inr (), s\<lparr>root := Some r\<rparr>, t)" by blast
  show ?thesis
  proof (cases "find_elem latest_path r")
    case None
    then show ?thesis using lr
      by (simp add: create_endpoints_def get_latest_weekly_version_def)
  next
    case (Some e)
    have wk: "get_latest_weekly_version w s = (Inr (text_of e), s\<lparr>root := Some r\<rparr>, t)"
      using lr Some by (simp add: get_latest_weekly_version_def)
    have tr: "truthy (root (s\<lparr>root := Some r\<rparr>))"
      using find_elem_truthy [OF Some] by simp
    have st: "get_latest_stable_version w (s\<lparr>root := Some r\<rparr>)
                = (latest_stable_of r, s\<lparr>root := Some r\<rparr>, [])"
      using load_root_truthy [OF tr, of w] by (simp add: get_latest_stable_version_def)
    show ?thesis using wk st Some
      by (simp add: create_endpoints_def split: sum.splits)
  qed
qed

text \<open>
  C9, as amended. \<open>create_endpoints\<close> takes the host name only and resolves the two
  versions itself. On an object that holds a document with children it opens no URL,
  emits nothing and leaves the object as it was. On an object that holds none, when
  the fetch returns a document, it opens the metadata URL exactly once, stores the
  root on the object and does nothing else. In both cases the result depends on the
  document and the host name alone: it is the table formatted from the host name, the
  text of \<open>versioning/latest\<close> and the latest stable version, or the error of the
  lookup that failed.
\<close>

theorem create_endpoints_effects:
  "(truthy (root s) \<longrightarrow> snd (create_endpoints w h s) = (s, []))
   \<and> (\<not> truthy (root s) \<and> metadata w default_metadataUrl = Parsed r \<longrightarrow>
        snd (create_endpoints w h s) = (s\<lparr>root := Some r\<rparr>, [UrlOpen default_metadataUrl]))
   \<and> (document_of w s = Some r \<longrightarrow>
        fst (create_endpoints w h s)
          = (case find_elem latest_path r of
               None \<Rightarrow> Inl AttributeError
             | Some e \<Rightarrow>
                 (case latest_stable_of r of
                    Inl err \<Rightarrow> Inl err
                  | Inr v \<Rightarrow> Inr (endpoints_dict h (str_opt (text_of e)) v))))"
proof (intro conjI impI)
  assume "truthy (root s)"
  then show "snd (create_endpoints w h s) = (s, [])"
    by (simp add: create_endpoints_state_trace load_root_truthy)
next
  assume "\<not> truthy (root s) \<and> metadata w default_metadataUrl = Parsed r"
  then show "snd (create_endpoints w h s) = (s\<lparr>root := Some r\<rparr>, [UrlOpen default_metadataUrl])"
    by (simp add: create_endpoints_state_trace load_root_def build_tree_def)
next
  assume "document_of w s = Some r"
  then show "fst (create_endpoints w h s)
          = (case find_elem latest_path r of
               None \<Rightarrow> Inl AttributeError
             | Some e \<Rightarrow>
                 (case latest_stable_of r of
                    Inl err \<Rightarrow> Inl err
                  | Inr v \<Rightarrow> Inr (endpoints_dict h (str_opt (text_of e)) v)))"
    by (rule create_endpoints_result)
qed

lemma cached_example_facts:
  "truthy (root (cached example_doc))"
  "\<not> truthy (root new_check)"
  "metadata (doc_world example_doc) default_metadataUrl = Parsed example_doc"
  "document_of down_world (cached example_doc) = Some example_doc"
  "document_of (doc_world example_doc) new_check = Some example_doc"
  "find_elem latest_path example_doc = Some (Element ''latest'' (Some ''2.401'') [])"
  "latest_stable_of example_doc = Inr ''2.390.1''"
  "new_check\<lparr>root := Some example_doc\<rparr> = cached example_doc"
  by code_simp+

theorem create_endpoints_effects_witness:
  "create_endpoints down_world ''get.jenkins.io'' (cached example_doc)
     = (Inr (endpoints_dict ''get.jenkins.io'' ''2.401'' ''2.390.1''), cached example_doc, [])
   \<and> create_endpoints (doc_world example_doc) ''get.jenkins.io'' new_check
     = (Inr (endpoints_dict ''get.jenkins.io'' ''2.401'' ''2.390.1''), cached example_doc,
        [UrlOpen default_metadataUrl])"
proof -
  from create_endpoints_effects
         [of "cached example_doc" down_world "''get.jenkins.io''" example_doc]
       cached_example_facts
  have a: "snd (create_endpoints down_world ''get.jenkins.io'' (cached example_doc))
             = (cached example_doc, [])"
      and b: "fst (create_endpoints down_world ''get.jenkins.io'' (cached example_doc))
             = Inr (endpoints_dict ''get.jenkins.io'' ''2.401'' ''2.390.1'')"
    by simp_all
  from create_endpoints_effects
         [of new_check "doc_world example_doc" "''get.jenkins.io''" example_doc]
       cached_example_facts
  have c: "snd (create_endpoints (doc_world example_doc) ''get.jenkins.io'' new_check)
             = (cached example_doc, [UrlOpen default_metadataUrl])"
      and d: "fst (create_endpoints (doc_world example_doc) ''get.jenkins.io'' new_check)
             = Inr (endpoints_dict ''get.jenkins.io'' ''2.401'' ''2.390.1'')"
    by simp_all
  from a b c d show ?thesis by (simp add: prod_eq_iff)
qed

text \<open>On a new object \<open>create_endpoints\<close> opens the metadata URL and stores the root.\<close>

theorem create_endpoints_fetches:
  "create_endpoints (doc_world example_doc) ''get.jenkins.io'' new_check
     = (Inr (endpoints_dict ''get.jenkins.io'' ''2.401'' ''2.390.1''), cached example_doc,
        [UrlOpen default_metadataUrl])
   \<and> cached example_doc \<noteq> new_check"
  by code_simp

lemma endpoint_url_not_metadata:
  "map_of (endpoints_dict default_hostname wk v) p = Some url \<Longrightarrow> url \<noteq> default_metadataUrl"
  by (auto simp: endpoints_dict_def default_hostname_def default_metadataUrl_def
           split: if_splits)

lemma is_exist_fetches:
  "url \<noteq> default_metadataUrl \<Longrightarrow> metadata_fetches (snd (is_exist w p url)) = 0"
  by (auto simp: is_exist_def metadata_fetches_def split: probe_result.splits)

lemma metadata_fetches_append:
  "metadata_fetches (a @ b) = metadata_fetches a + metadata_fetches b"
  by (simp add: metadata_fetches_def)

lemma check_shape:
  "\<exists>extra. snd (check w inst s)
             = (fst (snd (create_endpoints w default_hostname s)),
                snd (snd (create_endpoints w default_hostname s)) @ extra)
           \<and> metadata_fetches extra = 0"
proof (cases "create_endpoints w default_hostname s")
  case (fields res s1 t1)
  show ?thesis
  proof (cases res)
    case (Inl e)
    with fields have "snd (check w inst s) = (s1, t1 @ [])" by (simp add: check_def)
    then show ?thesis using fields by (auto simp: metadata_fetches_def)
  next
    case (Inr eps)
    with fields have ce: "create_endpoints w default_hostname s = (Inr eps, s1, t1)" by simp
    from create_endpoints_Inr [OF ce] obtain wk v where
      eps: "eps = endpoints_dict default_hostname wk v" by blast
    show ?thesis
    proof (cases "inst ''package''")
      case None
      with ce have "snd (check w inst s) = (s1, t1 @ [])" by (simp add: check_def)
      then show ?thesis using ce by (auto simp: metadata_fetches_def)
    next
      case (Some package)
      show ?thesis
      proof (cases "map_of eps package")
        case None
        with ce Some have "snd (check w inst s)
            = (s1, t1 @ [Warning (''PackageAvailable: '' @ package),
                         Warning (''PackageCanDownload: Package '' @ package
                                  @ '' is not supported'')])"
          by (simp add: check_def)
        then show ?thesis using ce by (auto simp: metadata_fetches_def)
      next
        case (Some url)
        have nu: "url \<noteq> default_metadataUrl"
          using Some eps endpoint_url_not_metadata by blast
        obtain x t3 where ie: "is_exist w package url = (x, t3)"
          by (cases "is_exist w package url") auto
        have f3: "metadata_fetches t3 = 0"
          using is_exist_fetches [OF nu, of w package] ie by simp
        show ?thesis
        proof (cases x)
          case (Inl e)
          with ce \<open>inst ''package'' = Some package\<close> Some ie
          have "snd (check w inst s)
                  = (s1, t1 @ ([Warning (''PackageAvailable: '' @ package)] @ t3))"
            by (simp add: check_def)
          moreover have "metadata_fetches ([Warning (''PackageAvailable: '' @ package)] @ t3) = 0"
            using f3 by (simp add: metadata_fetches_def)
          ultimately show ?thesis using ce by auto
        next
          case (Inr val)
          with ce \<open>inst ''package'' = Some package\<close> Some ie
          have "snd (check w inst s)
                  = (s1, t1 @ ([Warning (''PackageAvailable: '' @ package)] @ t3
                               @ [Gauge ''jenkins.package.available'' val [''package:'' @ package]]))"
            by (simp add: check_def)
          moreover have "metadata_fetches ([Warning (''PackageAvailable: '' @ package)] @ t3
                               @ [Gauge ''jenkins.package.available'' val [''package:'' @ package]]) = 0"
            using f3 by (simp add: metadata_fetches_def)
          ultimately show ?thesis using ce by auto
        qed
      qed
    qed
  qed
qed

lemma check_Inr_create:
  "fst (check w inst s) = Inr u \<Longrightarrow> \<exists>eps. fst (create_endpoints w default_hostname s) = Inr eps"
  by (auto simp: check_def split: prod.splits sum.splits)

section \<open>The cached document\<close>

text \<open>
  Within one call of \<open>check\<close> the metadata URL is opened at most once, and when the
  table is built both versions come from the same document, which is the root the
  object holds afterwards. A call on an object whose root has children opens no
  metadata URL and leaves the object unchanged, and after a call that returns normally
  the root has children.
\<close>

lemma document_cache:
  "metadata_fetches (snd (snd (check w inst s))) \<le> 1
   \<and> (\<forall>eps s1 t1. create_endpoints w default_hostname s = (Inr eps, s1, t1) \<longrightarrow>
         (\<exists>r e v. document_of w s = Some r \<and> root s1 = Some r
                  \<and> find_elem latest_path r = Some e \<and> latest_stable_of r = Inr v
                  \<and> eps = endpoints_dict default_hostname (str_opt (text_of e)) v
                  \<and> metadata_fetches t1 \<le> 1))
   \<and> (truthy (root s) \<longrightarrow>
         fst (snd (check w inst s)) = s
         \<and> metadata_fetches (snd (snd (check w inst s))) = 0)
   \<and> (fst (check w inst s) = Inr () \<longrightarrow> truthy (root (fst (snd (check w inst s)))))
   \<and> root new_check = None"
proof -
  from check_shape [of w inst s] obtain extra where
    sh: "snd (check w inst s)
           = (fst (snd (create_endpoints w default_hostname s)),
              snd (snd (create_endpoints w default_hostname s)) @ extra)"
    and ex: "metadata_fetches extra = 0" by blast
  have cst: "snd (create_endpoints w default_hostname s) = snd (load_root w s)"
    by (rule create_endpoints_state_trace)
  have tr: "snd (snd (check w inst s)) = snd (snd (load_root w s)) @ extra"
    using sh cst by simp
  have st: "fst (snd (check w inst s)) = fst (snd (load_root w s))"
    using sh cst by simp
  have 1: "metadata_fetches (snd (snd (check w inst s))) \<le> 1"
    unfolding tr metadata_fetches_append using ex load_root_fetches [of w s] by simp
  have 2: "\<forall>eps s1 t1. create_endpoints w default_hostname s = (Inr eps, s1, t1) \<longrightarrow>
         (\<exists>r e v. document_of w s = Some r \<and> root s1 = Some r
                  \<and> find_elem latest_path r = Some e \<and> latest_stable_of r = Inr v
                  \<and> eps = endpoints_dict default_hostname (str_opt (text_of e)) v
                  \<and> metadata_fetches t1 \<le> 1)"
  proof (intro allI impI)
    fix eps s1 t1 assume ce: "create_endpoints w default_hostname s = (Inr eps, s1, t1)"
    have "t1 = snd (snd (create_endpoints w default_hostname s))" by (simp add: ce)
    also have "\<dots> = snd (snd (load_root w s))" by (simp only: cst)
    finally have "metadata_fetches t1 \<le> 1" using load_root_fetches [of w s] by simp
    with create_endpoints_Inr [OF ce]
    show "\<exists>r e v. document_of w s = Some r \<and> root s1 = Some r
                  \<and> find_elem latest_path r = Some e \<and> latest_stable_of r = Inr v
                  \<and> eps = endpoints_dict default_hostname (str_opt (text_of e)) v
                  \<and> metadata_fetches t1 \<le> 1"
      by blast
  qed
  have 3: "truthy (root s) \<longrightarrow>
         fst (snd (check w inst s)) = s
         \<and> metadata_fetches (snd (snd (check w inst s))) = 0"
    unfolding tr st metadata_fetches_append using ex
    by (simp add: load_root_truthy metadata_fetches_def)
  have 4: "fst (check w inst s) = Inr () \<longrightarrow> truthy (root (fst (snd (check w inst s))))"
  proof
    assume "fst (check w inst s) = Inr ()"
    from check_Inr_create [OF this] obtain eps s1 t1 where
      ce: "create_endpoints w default_hostname s = (Inr eps, s1, t1)"
      by (cases "create_endpoints w default_hostname s") auto
    from create_endpoints_Inr [OF ce] have "truthy (root s1)" by blast
    moreover have "fst (snd (check w inst s)) = s1" using sh ce by simp
    ultimately show "truthy (root (fst (snd (check w inst s))))" by simp
  qed
  have 5: "root new_check = None" by (simp add: new_check_def)
  from 1 2 3 4 5 show ?thesis by blast
qed

text \<open>
  C10. The parsed document is not re-created for each run: it stays on the check
  object. A first call of \<open>check\<close> on a new object opens the metadata URL, stores
  the document that lists 2.401 as latest and probes the URL of 2.401. A second call
  on the same object, made when the metadata lists 2.402 as latest, opens no metadata
  URL, keeps the stored document and probes the URL of 2.401 again, where a new object
  probes the URL of 2.402.
\<close>

theorem cache_kept_across_checks:
  "check (doc_world example_doc) [''package'' \<mapsto> ''war''] new_check
     = (Inr (), cached example_doc,
        [UrlOpen default_metadataUrl, Warning ''PackageAvailable: war'',
         UrlOpen ''https://get.jenkins.io/war/2.401/jenkins.war'',
         Gauge ''jenkins.package.available'' 1 [''package:war'']])
   \<and> check (doc_world next_doc) [''package'' \<mapsto> ''war''] (cached example_doc)
     = (Inr (), cached example_doc,
        [Warning ''PackageAvailable: war'',
         UrlOpen ''https://get.jenkins.io/war/2.401/jenkins.war'',
         Gauge ''jenkins.package.available'' 1 [''package:war'']])
   \<and> check (doc_world next_doc) [''package'' \<mapsto> ''war''] new_check
     = (Inr (), cached next_doc,
        [UrlOpen default_metadataUrl, Warning ''PackageAvailable: war'',
         UrlOpen ''https://get.jenkins.io/war/2.402/jenkins.war'',
         Gauge ''jenkins.package.available'' 1 [''package:war'']])
   \<and> root (cached example_doc) = Some example_doc"
  by code_simp

end
